theory Spec2Isabelle
  imports Complex_Main "HOL-Library.Char_ord" "HOL-Library.List_Lexorder" "HOL-Library.Option_ord"
begin

section \<open>Python values reaching the row-level functions\<close>

text \<open>
  The three functions \<open>convert_datetime\<close>, \<open>convert_i94mode\<close> and \<open>convert_visatype\<close> of
  \<^verbatim>\<open>etl.py\<close> are registered as Spark UDFs and receive Python objects. The objects that matter
  are \<^verbatim>\<open>None\<close>, integers, floats and strings. A finite float is represented by the rational it
  denotes; NaN and the infinities have constructors of their own. Strings are byte strings
  (ASCII text).
\<close>

datatype pyobj = PyNone | PyInt int | PyFloat rat | PyNan | PyInf | PyStr string

datatype py_error = TypeError | ValueError | OverflowError

text \<open>Python's \<^verbatim>\<open>x == k\<close> for an integer literal \<open>k\<close>: numbers compare by value, anything else is unequal.\<close>

fun py_eq_int :: "pyobj \<Rightarrow> int \<Rightarrow> bool" where
  "py_eq_int (PyInt n) k = (n = k)"
| "py_eq_int (PyFloat q) k = (q = of_int k)"
| "py_eq_int _ k = False"

subsection \<open>The builtin \<^verbatim>\<open>int()\<close>\<close>

definition py_isspace :: "char \<Rightarrow> bool" where
  "py_isspace c = (c \<in> set [CHR '' '', CHR 0x09, CHR 0x0A, CHR 0x0B, CHR 0x0C, CHR 0x0D,
                              CHR 0x1C, CHR 0x1D, CHR 0x1E, CHR 0x1F])"

definition py_strip :: "string \<Rightarrow> string" where
  "py_strip s = rev (dropWhile py_isspace (rev (dropWhile py_isspace s)))"

definition digit_val :: "char \<Rightarrow> int option" where
  "digit_val c = map_of [(CHR ''0'', 0), (CHR ''1'', 1), (CHR ''2'', 2), (CHR ''3'', 3),
     (CHR ''4'', 4), (CHR ''5'', 5), (CHR ''6'', 6), (CHR ''7'', 7), (CHR ''8'', 8),
     (CHR ''9'', 9)] c"

text \<open>
  Decimal digits after the first one; a single underscore may separate two digits.
  The accumulator holds the value read so far.
\<close>

fun py_digits :: "int \<Rightarrow> string \<Rightarrow> int option" where
  "py_digits acc [] = Some acc"
| "py_digits acc [c] = (case digit_val c of Some v \<Rightarrow> Some (10 * acc + v) | None \<Rightarrow> None)"
| "py_digits acc (c # d # ds) =
     (case digit_val c of
        Some v \<Rightarrow> py_digits (10 * acc + v) (d # ds)
      | None \<Rightarrow>
          if c = CHR ''_'' then
            (case digit_val d of Some w \<Rightarrow> py_digits (10 * acc + w) ds | None \<Rightarrow> None)
          else None)"

definition py_unsigned :: "string \<Rightarrow> int option" where
  "py_unsigned s =
     (case s of [] \<Rightarrow> None
      | c # cs \<Rightarrow> (case digit_val c of Some v \<Rightarrow> py_digits v cs | None \<Rightarrow> None))"

definition py_int_of_str :: "string \<Rightarrow> int option" where
  "py_int_of_str s =
     (case py_strip s of
        [] \<Rightarrow> None
      | c # cs \<Rightarrow>
          if c = CHR ''-'' then map_option uminus (py_unsigned cs)
          else if c = CHR ''+'' then py_unsigned cs
          else py_unsigned (c # cs))"

text \<open>Truncation toward zero, as \<^verbatim>\<open>int(x)\<close> does on a float.\<close>

definition trunc :: "rat \<Rightarrow> int" where
  "trunc q = (if 0 \<le> q then \<lfloor>q\<rfloor> else \<lceil>q\<rceil>)"

fun py_int :: "pyobj \<Rightarrow> py_error + int" where
  "py_int PyNone = Inl TypeError"
| "py_int (PyInt n) = Inr n"
| "py_int (PyFloat q) = Inr (trunc q)"
| "py_int PyNan = Inl ValueError"
| "py_int PyInf = Inl OverflowError"
| "py_int (PyStr s) = (case py_int_of_str s of None \<Rightarrow> Inl ValueError | Some n \<Rightarrow> Inr n)"

section \<open>Dates\<close>

text \<open>
  A calendar date (a \<^verbatim>\<open>datetime\<close> at midnight, a Spark \<^verbatim>\<open>DateType\<close> value) is represented by
  its proleptic Gregorian ordinal, day 1 being 0001-01-01: the number on which
  \<^verbatim>\<open>datetime + timedelta\<close> computes. The conversions between ordinals and year, month, day
  follow the \<^verbatim>\<open>datetime\<close> module.
\<close>

datatype date = Date (ordinal: int)

definition is_leap :: "int \<Rightarrow> bool" where
  "is_leap y = (y mod 4 = 0 \<and> (y mod 100 \<noteq> 0 \<or> y mod 400 = 0))"

definition days_before_year :: "int \<Rightarrow> int" where
  "days_before_year year = (let y = year - 1 in y * 365 + y div 4 - y div 100 + y div 400)"

definition DAYS_IN_MONTH :: "int list" where
  "DAYS_IN_MONTH = [-1, 31, 28, 31, 30, 31, 30, 31, 31, 30, 31, 30, 31]"

definition DAYS_BEFORE_MONTH :: "int list" where
  "DAYS_BEFORE_MONTH = [-1, 0, 31, 59, 90, 120, 151, 181, 212, 243, 273, 304, 334]"

definition days_before_month :: "int \<Rightarrow> int \<Rightarrow> int" where
  "days_before_month year month =
     DAYS_BEFORE_MONTH ! nat month + (if month > 2 \<and> is_leap year then 1 else 0)"

definition ymd2ord :: "int \<Rightarrow> int \<Rightarrow> int \<Rightarrow> int" where
  "ymd2ord year month day = days_before_year year + days_before_month year month + day"

definition ord2ymd :: "int \<Rightarrow> int \<times> int \<times> int" where
  "ord2ymd n0 =
     (let n = n0 - 1;
          n400 = n div 146097; n = n mod 146097;
          year = n400 * 400 + 1;
          n100 = n div 36524; n = n mod 36524;
          n4 = n div 1461; n = n mod 1461;
          n1 = n div 365; n = n mod 365;
          year = year + n100 * 100 + n4 * 4 + n1
      in if n1 = 4 \<or> n100 = 4 then (year - 1, 12, 31)
         else
           let leapyear = (n1 = 3 \<and> (n4 \<noteq> 24 \<or> n100 = 3));
               month = (n + 50) div 32;
               preceding = DAYS_BEFORE_MONTH ! nat month + (if month > 2 \<and> leapyear then 1 else 0)
           in if preceding > n then
                let month = month - 1;
                    preceding = preceding -
                      (DAYS_IN_MONTH ! nat month + (if month = 2 \<and> leapyear then 1 else 0))
                in (year, month, n - preceding + 1)
              else (year, month, n - preceding + 1))"

definition MAXORDINAL :: int where
  "MAXORDINAL = 3652059"

text \<open>\<^verbatim>\<open>timedelta(days=n)\<close>: the day count is limited to nine decimal digits.\<close>

definition timedelta :: "int \<Rightarrow> py_error + int" where
  "timedelta days = (if - 999999999 \<le> days \<and> days \<le> 999999999 then Inr days else Inl OverflowError)"

text \<open>\<^verbatim>\<open>datetime + timedelta\<close>: the result must lie between 0001-01-01 and 9999-12-31.\<close>

definition datetime_add :: "date \<Rightarrow> int \<Rightarrow> py_error + date" where
  "datetime_add d days =
     (let n = ordinal d + days in if 0 < n \<and> n \<le> MAXORDINAL then Inr (Date n) else Inl OverflowError)"

section \<open>Codec layer\<close>

text \<open>The body of the \<^verbatim>\<open>try\<close> block of \<open>convert_datetime\<close>: \<open>Inl\<close> is a raised exception.\<close>

definition convert_datetime_try :: "pyobj \<Rightarrow> py_error + date" where
  "convert_datetime_try num_days =
     (let start = Date (ymd2ord 1960 1 1) in
      case py_int num_days of
        Inl e \<Rightarrow> Inl e
      | Inr n \<Rightarrow> (case timedelta n of Inl e \<Rightarrow> Inl e | Inr days \<Rightarrow> datetime_add start days))"

text \<open>The bare \<^verbatim>\<open>except\<close> turns every exception into the return value \<^verbatim>\<open>None\<close>.\<close>

definition convert_datetime :: "pyobj \<Rightarrow> date option" where
  "convert_datetime num_days =
     (case convert_datetime_try num_days of Inl e \<Rightarrow> None | Inr d \<Rightarrow> Some d)"

definition convert_i94mode :: "pyobj \<Rightarrow> string" where
  "convert_i94mode mode =
     (if py_eq_int mode 1 then ''Air''
      else if py_eq_int mode 2 then ''Sea''
      else if py_eq_int mode 3 then ''Land''
      else ''Unknown'')"

definition convert_visatype :: "pyobj \<Rightarrow> string" where
  "convert_visatype visa =
     (if visa = PyNone then ''Not Reported''
      else if py_eq_int visa 1 then ''Business''
      else if py_eq_int visa 2 then ''Pleasure''
      else if py_eq_int visa 3 then ''Student''
      else ''Unknown'')"

section \<open>Spark SQL built-ins\<close>

text \<open>
  A nullable column value is an \<open>option\<close>, \<open>None\<close> being SQL NULL. A comparison with NULL is
  NULL, and a \<^verbatim>\<open>WHERE\<close> or \<^verbatim>\<open>ON\<close> condition keeps a row only when it is true.
  A \<^verbatim>\<open>double\<close> column holds the rational its finite value denotes.
\<close>

definition sql_eq :: "'a option \<Rightarrow> 'a option \<Rightarrow> bool option" where
  "sql_eq a b = (case a of None \<Rightarrow> None | Some x \<Rightarrow> (case b of None \<Rightarrow> None | Some y \<Rightarrow> Some (x = y)))"

definition sql_neq :: "'a option \<Rightarrow> 'a option \<Rightarrow> bool option" where
  "sql_neq a b = map_option Not (sql_eq a b)"

definition sql_and :: "bool option \<Rightarrow> bool option \<Rightarrow> bool option" where
  "sql_and a b =
     (if a = Some False \<or> b = Some False then Some False
      else if a = Some True \<and> b = Some True then Some True
      else None)"

definition sql_holds :: "bool option \<Rightarrow> bool" where
  "sql_holds c = (c = Some True)"

definition ifnull :: "'a option \<Rightarrow> 'a \<Rightarrow> 'a" where
  "ifnull a d = (case a of None \<Rightarrow> d | Some x \<Rightarrow> x)"

text \<open>\<^verbatim>\<open>upper\<close> on ASCII text: the letters a to z are raised, every other byte is kept.\<close>

definition upper_char :: "char \<Rightarrow> char" where
  "upper_char c =
     (case map_of (zip ''abcdefghijklmnopqrstuvwxyz'' ''ABCDEFGHIJKLMNOPQRSTUVWXYZ'') c of
        None \<Rightarrow> c | Some u \<Rightarrow> u)"

definition sql_upper :: "string option \<Rightarrow> string option" where
  "sql_upper s = map_option (map upper_char) s"

text \<open>\<^verbatim>\<open>trim\<close> removes the space character from both ends.\<close>

definition sql_trim :: "string option \<Rightarrow> string option" where
  "sql_trim s =
     map_option (\<lambda>x. rev (dropWhile (\<lambda>c. c = CHR '' '') (rev (dropWhile (\<lambda>c. c = CHR '' '') x)))) s"

definition sql_concat :: "string option \<Rightarrow> string option \<Rightarrow> string option" where
  "sql_concat a b = (case a of None \<Rightarrow> None | Some x \<Rightarrow> map_option (\<lambda>y. x @ y) b)"

text \<open>\<^verbatim>\<open>int(x)\<close> on a double: truncation toward zero, saturating at the 32-bit bounds.\<close>

definition sql_int :: "rat option \<Rightarrow> int option" where
  "sql_int x = map_option (\<lambda>q. max (- 2147483648) (min 2147483647 (trunc q))) x"

text \<open>\<^verbatim>\<open>split(s, ",")\<close> and \<^verbatim>\<open>getItem(i)\<close>, which is NULL past the end of the array.\<close>

fun split_on :: "char \<Rightarrow> string \<Rightarrow> string list" where
  "split_on c [] = [[]]"
| "split_on c (x # xs) =
     (if x = c then [] # split_on c xs
      else (case split_on c xs of [] \<Rightarrow> [[x]] | h # t \<Rightarrow> (x # h) # t))"

definition sql_split :: "string option \<Rightarrow> char \<Rightarrow> string list option" where
  "sql_split s c = map_option (split_on c) s"

definition getItem :: "'a list option \<Rightarrow> nat \<Rightarrow> 'a option" where
  "getItem arr i = (case arr of None \<Rightarrow> None | Some xs \<Rightarrow> if i < length xs then Some (xs ! i) else None)"

text \<open>A double column handed to a Python UDF arrives as a float, NULL as \<^verbatim>\<open>None\<close>.\<close>

definition py_of_double :: "rat option \<Rightarrow> pyobj" where
  "py_of_double x = (case x of None \<Rightarrow> PyNone | Some q \<Rightarrow> PyFloat q)"

subsection \<open>Date functions\<close>

definition sql_year :: "date option \<Rightarrow> int option" where
  "sql_year d = map_option (\<lambda>x. fst (ord2ymd (ordinal x))) d"

definition sql_month :: "date option \<Rightarrow> int option" where
  "sql_month d = map_option (\<lambda>x. fst (snd (ord2ymd (ordinal x)))) d"

definition sql_day :: "date option \<Rightarrow> int option" where
  "sql_day d = map_option (\<lambda>x. snd (snd (ord2ymd (ordinal x)))) d"

definition sql_quarter :: "date option \<Rightarrow> int option" where
  "sql_quarter d = map_option (\<lambda>m. (m - 1) div 3 + 1) (sql_month d)"

text \<open>\<^verbatim>\<open>dayofweek\<close>: 1 is Sunday, 7 is Saturday. Ordinal 1 is a Monday.\<close>

definition sql_dayofweek :: "date option \<Rightarrow> int option" where
  "sql_dayofweek d = map_option (\<lambda>x. ordinal x mod 7 + 1) d"

text \<open>\<^verbatim>\<open>weekofyear\<close>: the ISO 8601 week number, week 1 being the week of the year's first Thursday.\<close>

definition isoweek1monday :: "int \<Rightarrow> int" where
  "isoweek1monday year =
     (let firstday = ymd2ord year 1 1;
          firstweekday = (firstday + 6) mod 7;
          week1monday = firstday - firstweekday
      in if firstweekday > 3 then week1monday + 7 else week1monday)"

definition isoweek :: "int \<Rightarrow> int" where
  "isoweek today =
     (let year = fst (ord2ymd today);
          week = (today - isoweek1monday year) div 7
      in if week < 0 then (today - isoweek1monday (year - 1)) div 7 + 1
         else if week \<ge> 52 \<and> today \<ge> isoweek1monday (year + 1) then 1
         else week + 1)"

definition sql_weekofyear :: "date option \<Rightarrow> int option" where
  "sql_weekofyear d = map_option (\<lambda>x. isoweek (ordinal x)) d"

text \<open>The comparison \<^verbatim>\<open>dt > "1999-12-31"\<close>.\<close>

definition after_1999 :: "date option \<Rightarrow> bool option" where
  "after_1999 dt = map_option (\<lambda>d. ordinal d > ymd2ord 1999 12 31) dt"

subsection \<open>Joins and window ranking\<close>

definition inner_join :: "('a \<Rightarrow> 'b \<Rightarrow> bool option) \<Rightarrow> 'a list \<Rightarrow> 'b list \<Rightarrow> ('a \<times> 'b) list" where
  "inner_join on ls rs = concat (map (\<lambda>l. map (Pair l) (filter (\<lambda>r. sql_holds (on l r)) rs)) ls)"

definition left_outer_join ::
  "('a \<Rightarrow> 'b \<Rightarrow> bool option) \<Rightarrow> 'a list \<Rightarrow> 'b list \<Rightarrow> ('a \<times> 'b option) list" where
  "left_outer_join on ls rs =
     concat (map (\<lambda>l. let ms = filter (\<lambda>r. sql_holds (on l r)) rs
                       in if ms = [] then [(l, None)] else map (\<lambda>r. (l, Some r)) ms) ls)"

text \<open>
  \<^verbatim>\<open>dense_rank().over(Window.partitionBy(part).orderBy(desc(ord)))\<close>: one more than the number
  of distinct order values of the row's partition that sort before the row's own. In descending
  order NULL sorts last, which is the order of \<open>option\<close> with \<open>None\<close> least.
\<close>

definition dense_rank_desc :: "('r \<Rightarrow> 'k) \<Rightarrow> ('r \<Rightarrow> 'o::linorder) \<Rightarrow> 'r list \<Rightarrow> 'r \<Rightarrow> nat" where
  "dense_rank_desc part ord df r =
     Suc (length (remdups (map ord (filter (\<lambda>x. part x = part r \<and> ord r < ord x) df))))"

definition date_key :: "date option \<Rightarrow> int option" where
  "date_key d = map_option ordinal d"

section \<open>Tables\<close>

text \<open>
  A table is the list of its rows. Columns renamed right after loading carry their new names
  from the start. Each field is prefixed by a short tag of its table, since several tables share
  column names.
\<close>

record countries_row =
  cv_Country_Code :: "int option"
  cv_Country :: "string option"

record country_temperatures_row =
  ct_dt :: "date option"
  ct_AverageTemperature :: "rat option"
  ct_AverageTemperatureUncertainty :: "rat option"
  ct_Country :: "string option"

record country_table_row =
  co_Country_code :: "int option"
  co_Country :: "string option"
  co_LastMeasuredDate :: "date option"
  co_AverageTemperature :: "rat option"
  co_AverageTemperatureUncertainty :: "rat option"

record ports_row =
  p_Port_Code :: "string option"
  p_Port_City :: "string option"
  p_State_Code :: "string option"

record demo_row =
  d_City :: "string option"
  d_State :: "string option"
  d_Median_Age :: "rat option"
  d_Male_Population :: "int option"
  d_Female_Population :: "int option"
  d_Total_Population :: "int option"
  d_Number_of_Veterans :: "int option"
  d_Foreign_born :: "int option"
  d_Avg_Household_Size :: "rat option"
  d_State_Code :: "string option"
  d_Race :: "string option"
  d_Count :: "int option"

record demographics_table_row =
  dm_Port_Code :: "string option"
  dm_Port_City :: "string option"
  dm_State_Code :: "string option"
  dm_State :: "string option"
  dm_Median_Age :: "rat option"
  dm_Male_Population :: "int option"
  dm_Female_Population :: "int option"
  dm_Total_Population :: "int option"
  dm_Number_of_Veterans :: "int option"
  dm_Foreign_born :: "int option"
  dm_Avg_Household_Size :: "rat option"
  dm_race :: "string option"
  dm_Count :: "int option"

record airports_row =
  a_ident :: "string option"
  a_type :: "string option"
  a_name :: "string option"
  a_elevation_ft :: "int option"
  a_continent :: "string option"
  a_iso_country :: "string option"
  a_iso_region :: "string option"
  a_municipality :: "string option"
  a_gps_code :: "string option"
  a_iata_code :: "string option"
  a_local_code :: "string option"
  a_coordinates :: "string option"

record airport_view_row = airports_row +
  a_longitude :: "string option"
  a_latitude :: "string option"

record airports_table_row =
  ap_Port_Code :: "string option"
  ap_Port_City :: "string option"
  ap_State_Code :: "string option"
  ap_name :: "string option"
  ap_type :: "string option"
  ap_elevation_feet :: int
  ap_elevation_metres :: int
  ap_continent :: "string option"
  ap_iso_country :: "string option"
  ap_iso_region :: "string option"
  ap_municipality :: "string option"
  ap_gps_code :: "string option"
  ap_iata_code :: "string option"
  ap_longitude :: "rat option"
  ap_latitude :: "rat option"

record immigrations_row =
  im_cicid :: "rat option"
  im_i94yr :: "rat option"
  im_i94mon :: "rat option"
  im_i94cit :: "rat option"
  im_i94port :: "string option"
  im_biryear :: "rat option"
  im_airline :: "string option"
  im_fltno :: "string option"
  im_i94visa :: "rat option"
  im_i94mode :: "rat option"
  im_arrdate :: "rat option"
  im_depdate :: "rat option"

record immigrations_table_row =
  immigration_id :: "int option"
  it_Year :: "int option"
  it_Month :: "int option"
  country_of_citizenship :: "int option"
  port_code :: "string option"
  mode_of_travel :: "string option"
  visa_type :: "string option"
  birth_year :: "int option"
  arrival_airline :: "string option"
  arrival_flightnumber :: "string option"
  arrival_date :: "date option"
  departure_date :: "date option"

record city_temperatures_row =
  cy_dt :: "date option"
  cy_AverageTemperature :: "rat option"
  cy_AverageTemperatureUncertainty :: "rat option"
  cy_City :: "string option"
  cy_Country :: "string option"
  cy_Latitude :: "string option"
  cy_Longitude :: "string option"

record city_temperatures_table_row =
  cx_Port_Code :: "string option"
  cx_Port_City :: "string option"
  cx_LastMeasuredDate :: "date option"
  cx_AverageTemperature :: "rat option"
  cx_AverageTemperatureUncertainty :: "rat option"

text \<open>
  The time table loses a column in its final projection, so its rows carry the column names:
  a row is the list of its named cells.
\<close>

datatype cell = DateCell "date option" | IntCell "int option"

type_synonym named_row = "(string \<times> cell) list"

datatype spark_error = LoadFailed string | AnalysisException string

text \<open>\<^verbatim>\<open>df.select([names])\<close>: the named columns in the order given; a missing column is an error.\<close>

definition select_row :: "string list \<Rightarrow> named_row \<Rightarrow> named_row option" where
  "select_row cols r = those (map (\<lambda>c. map_option (Pair c) (map_of r c)) cols)"

definition df_select :: "string list \<Rightarrow> named_row list \<Rightarrow> spark_error + named_row list" where
  "df_select cols df =
     (case those (map (select_row cols) df) of
        None \<Rightarrow> Inl (AnalysisException ''cannot resolve column'')
      | Some rows \<Rightarrow> Inr rows)"

section \<open>Latest-measurement reduction\<close>

text \<open>
  \<open>read_country_data\<close>, lines 112 to 115: rows after 1999-12-31, with a temperature, ranked
  within their country by date descending; rank 1 is kept, ordered by country. The view holds
  each row with its rank column.
\<close>

definition country_temperatures_view ::
  "country_temperatures_row list \<Rightarrow> (country_temperatures_row \<times> nat) list" where
  "country_temperatures_view df =
     (let df1 = filter (\<lambda>r. sql_holds (after_1999 (ct_dt r))) df;
          df2 = filter (\<lambda>r. ct_AverageTemperature r \<noteq> None) df1;
          df3 = map (\<lambda>r. (r, dense_rank_desc ct_Country (\<lambda>x. date_key (ct_dt x)) df2 r)) df2
      in sort_key (\<lambda>x. ct_Country (fst x)) (filter (\<lambda>x. snd x = 1) df3))"

text \<open>
  \<open>read_city_temperatures\<close>, lines 274 to 277: rows after 1999-12-31 of the United States,
  ranked within their city by date descending; rank 1 is kept, ordered by city. The temperature
  is not tested here.
\<close>

definition city_temperatures_view ::
  "city_temperatures_row list \<Rightarrow> (city_temperatures_row \<times> nat) list" where
  "city_temperatures_view df =
     (let df1 = filter (\<lambda>r. sql_holds (after_1999 (cy_dt r))) df;
          df2 = filter (\<lambda>r. sql_holds (sql_eq (cy_Country r) (Some ''United States''))) df1;
          df3 = map (\<lambda>r. (r, dense_rank_desc cy_City (\<lambda>x. date_key (cy_dt x)) df2 r)) df2
      in sort_key (\<lambda>x. cy_City (fst x)) (filter (\<lambda>x. snd x = 1) df3))"

section \<open>Entity joins\<close>

definition country_table_of :: "countries_row \<Rightarrow> (country_temperatures_row \<times> nat) option \<Rightarrow> country_table_row" where
  "country_table_of cv ct =
     \<lparr>co_Country_code = cv_Country_Code cv, co_Country = cv_Country cv,
      co_LastMeasuredDate = (case ct of None \<Rightarrow> None | Some t \<Rightarrow> ct_dt (fst t)),
      co_AverageTemperature = (case ct of None \<Rightarrow> None | Some t \<Rightarrow> ct_AverageTemperature (fst t)),
      co_AverageTemperatureUncertainty =
        (case ct of None \<Rightarrow> None | Some t \<Rightarrow> ct_AverageTemperatureUncertainty (fst t))\<rparr>"

text \<open>\<open>read_country_data\<close>, lines 119 to 122.\<close>

definition country_table ::
  "countries_row list \<Rightarrow> (country_temperatures_row \<times> nat) list \<Rightarrow> country_table_row list" where
  "country_table countries_view temperatures_view =
     remdups (map (\<lambda>(cv, ct). country_table_of cv ct)
       (left_outer_join (\<lambda>cv ct. sql_eq (sql_upper (cv_Country cv)) (sql_upper (ct_Country (fst ct))))
          countries_view temperatures_view))"

definition demographics_table_of :: "ports_row \<Rightarrow> demo_row \<Rightarrow> demographics_table_row" where
  "demographics_table_of p d =
     \<lparr>dm_Port_Code = p_Port_Code p, dm_Port_City = p_Port_City p, dm_State_Code = p_State_Code p,
      dm_State = d_State d, dm_Median_Age = d_Median_Age d,
      dm_Male_Population = d_Male_Population d, dm_Female_Population = d_Female_Population d,
      dm_Total_Population = d_Total_Population d, dm_Number_of_Veterans = d_Number_of_Veterans d,
      dm_Foreign_born = d_Foreign_born d, dm_Avg_Household_Size = d_Avg_Household_Size d,
      dm_race = d_Race d, dm_Count = d_Count d\<rparr>"

text \<open>
  \<open>read_demographics_data\<close>, lines 164 to 167: \<^verbatim>\<open>select distinct *\<close> over the joined pairs,
  then the projection to the thirteen output columns.
\<close>

definition demographics_table :: "ports_row list \<Rightarrow> demo_row list \<Rightarrow> demographics_table_row list" where
  "demographics_table ports_view demo_view =
     map (\<lambda>(p, d). demographics_table_of p d)
       (remdups (inner_join
          (\<lambda>p d. sql_and (sql_eq (sql_upper (p_Port_City p)) (sql_upper (d_City d)))
                          (sql_eq (sql_upper (p_State_Code p)) (sql_upper (d_State_Code d))))
          ports_view demo_view))"

text \<open>\<open>read_airport_data\<close>, lines 188 to 190: longitude and latitude are the two parts of the coordinates.\<close>

definition airport_view :: "airports_row list \<Rightarrow> airport_view_row list" where
  "airport_view df =
     map (\<lambda>a. let coor_long = sql_split (a_coordinates a) CHR '',''
               in airports_row.extend a
                    \<lparr>a_longitude = getItem coor_long 0, a_latitude = getItem coor_long 1\<rparr>) df"

text \<open>
  The multiplication by the decimal literal \<^verbatim>\<open>0.3048\<close> is exact, \<^verbatim>\<open>elevation_ft\<close> being an
  integer column; the product is smaller in size than the 32-bit factor, so \<^verbatim>\<open>int\<close> keeps it.
\<close>

definition elevation_metres_of :: "int \<Rightarrow> int" where
  "elevation_metres_of feet = \<lceil>of_int feet * (3048 / 10000 :: rat)\<rceil>"

definition airports_table_of ::
  "(string \<Rightarrow> rat option) \<Rightarrow> ports_row \<Rightarrow> airport_view_row \<Rightarrow> airports_table_row" where
  "airports_table_of cast_float p a =
     \<lparr>ap_Port_Code = p_Port_Code p, ap_Port_City = p_Port_City p, ap_State_Code = p_State_Code p,
      ap_name = a_name a, ap_type = a_type a,
      ap_elevation_feet = ifnull (a_elevation_ft a) 0,
      ap_elevation_metres = elevation_metres_of (ifnull (a_elevation_ft a) 0),
      ap_continent = a_continent a, ap_iso_country = a_iso_country a,
      ap_iso_region = a_iso_region a, ap_municipality = a_municipality a,
      ap_gps_code = a_gps_code a, ap_iata_code = a_iata_code a,
      ap_longitude = Option.bind (a_longitude a) cast_float,
      ap_latitude = Option.bind (a_latitude a) cast_float\<rparr>"

text \<open>
  \<open>read_airport_data\<close>, lines 197 to 201. The result of the statement of lines 193 to 195 is
  overwritten without being used. The cast of a string to \<^verbatim>\<open>float\<close> is the engine's and is a
  parameter here.
\<close>

definition airports_table ::
  "(string \<Rightarrow> rat option) \<Rightarrow> ports_row list \<Rightarrow> airport_view_row list \<Rightarrow> airports_table_row list" where
  "airports_table cast_float ports_view airports =
     map (\<lambda>(p, a). airports_table_of cast_float p a)
       (filter (\<lambda>(p, a). sql_holds (sql_and (sql_eq (a_iso_country a) (Some ''US''))
                                            (sql_neq (a_type a) (Some ''closed''))))
          (inner_join
             (\<lambda>p a. sql_and (sql_eq (p_Port_Code p) (a_iata_code a))
                             (sql_eq (a_iso_region a) (sql_concat (Some ''US-'') (sql_trim (p_State_Code p)))))
             ports_view airports))"

definition city_temperatures_table_of ::
  "ports_row \<Rightarrow> city_temperatures_row \<times> nat \<Rightarrow> city_temperatures_table_row" where
  "city_temperatures_table_of p t =
     \<lparr>cx_Port_Code = p_Port_Code p, cx_Port_City = p_Port_City p,
      cx_LastMeasuredDate = cy_dt (fst t), cx_AverageTemperature = cy_AverageTemperature (fst t),
      cx_AverageTemperatureUncertainty = cy_AverageTemperatureUncertainty (fst t)\<rparr>"

text \<open>\<open>read_city_temperatures\<close>, lines 279 to 284.\<close>

definition city_temperatures_table ::
  "ports_row list \<Rightarrow> (city_temperatures_row \<times> nat) list \<Rightarrow> city_temperatures_table_row list" where
  "city_temperatures_table ports_view temperatures_view =
     remdups (map (\<lambda>(p, t). city_temperatures_table_of p t)
       (filter (\<lambda>(p, t). p_Port_City p \<noteq> None)
          (inner_join (\<lambda>p t. sql_eq (sql_upper (p_Port_City p)) (sql_upper (cy_City (fst t))))
             ports_view temperatures_view)))"

section \<open>Immigration projection and time dimension\<close>

definition datetime_from_sas :: "rat option \<Rightarrow> date option" where
  "datetime_from_sas x = convert_datetime (py_of_double x)"

definition immigrations_table_of :: "immigrations_row \<Rightarrow> immigrations_table_row" where
  "immigrations_table_of v =
     \<lparr>immigration_id = sql_int (im_cicid v), it_Year = sql_int (im_i94yr v),
      it_Month = sql_int (im_i94mon v), country_of_citizenship = sql_int (im_i94cit v),
      port_code = im_i94port v,
      mode_of_travel = Some (convert_i94mode (py_of_double (im_i94mode v))),
      visa_type = Some (convert_visatype (py_of_double (im_i94visa v))),
      birth_year = sql_int (im_biryear v), arrival_airline = im_airline v,
      arrival_flightnumber = im_fltno v,
      arrival_date = datetime_from_sas (im_arrdate v),
      departure_date = datetime_from_sas (im_depdate v)\<rparr>"

text \<open>\<open>read_immigration_data\<close>, lines 226 to 234.\<close>

definition immigrations_table :: "immigrations_row list \<Rightarrow> immigrations_table_row list" where
  "immigrations_table immigrations_view =
     map immigrations_table_of
       (filter (\<lambda>v. sql_holds (sql_eq (sql_int (im_cicid v)) (Some 5748881))) immigrations_view)"

definition time_query_row :: "date option \<Rightarrow> named_row" where
  "time_query_row d =
     [(''sas_date'', DateCell d), (''year'', IntCell (sql_year d)), (''month'', IntCell (sql_month d)),
      (''day'', IntCell (sql_day d)), (''weekofyear'', IntCell (sql_weekofyear d)),
      (''quarter'', IntCell (sql_quarter d)), (''dayofweek'', IntCell (sql_dayofweek d))]"

text \<open>\<open>read_immigration_data\<close>, lines 244 to 251: \<^verbatim>\<open>union\<close> removes duplicates.\<close>

definition time_query :: "immigrations_row list \<Rightarrow> named_row list" where
  "time_query immigrations_view =
     remdups
       (remdups (map (\<lambda>v. time_query_row (datetime_from_sas (im_arrdate v)))
                   (filter (\<lambda>v. im_arrdate v \<noteq> None) immigrations_view)) @
        remdups (map (\<lambda>v. time_query_row (datetime_from_sas (im_depdate v)))
                   (filter (\<lambda>v. im_depdate v \<noteq> None) immigrations_view)))"

definition time_table_columns :: "string list" where
  "time_table_columns = [''sas_date'', ''year'', ''month'', ''weekofyear'', ''quarter'', ''dayofweek'']"

text \<open>\<open>read_immigration_data\<close>, line 252.\<close>

definition time_table :: "immigrations_row list \<Rightarrow> spark_error + named_row list" where
  "time_table immigrations_view = df_select time_table_columns (time_query immigrations_view)"

section \<open>Loading, writing and the sequence of transforms\<close>

text \<open>
  What the Spark session supplies: the table found at a path, for each kind of file the
  program loads (\<open>None\<close> when the load fails), and the cast of a string to \<^verbatim>\<open>float\<close>.
\<close>

record spark_session =
  csv_countries :: "string \<Rightarrow> countries_row list option"
  csv_country_temperatures :: "string \<Rightarrow> country_temperatures_row list option"
  csv_ports :: "string \<Rightarrow> ports_row list option"
  csv_demographics :: "string \<Rightarrow> demo_row list option"
  csv_airports :: "string \<Rightarrow> airports_row list option"
  sas_immigrations :: "string \<Rightarrow> immigrations_row list option"
  csv_city_temperatures :: "string \<Rightarrow> city_temperatures_row list option"
  cast_float :: "string \<Rightarrow> rat option"

datatype write_mode = Overwrite | Append

datatype table =
    Country_table "country_table_row list"
  | Demographics_table "demographics_table_row list"
  | Airports_table "airports_table_row list"
  | Immigrations_table "immigrations_table_row list"
  | Time_table "named_row list"
  | City_temperatures_table "city_temperatures_table_row list"

text \<open>A write: the output folder, the mode, the \<^verbatim>\<open>partitionBy\<close> columns and the table.\<close>

datatype write_call = Write string write_mode "string list" table

text \<open>
  The state the transforms act on: the paths passed to \<^verbatim>\<open>spark.read.load\<close> so far, the
  temporary view \<^verbatim>\<open>ports_view\<close> of the catalog (the only view read by a function other than
  the one that registers it), and the writes so far. The progress messages and the row counts
  they print are left out.
\<close>

record session_state =
  loads :: "string list"
  ports_view :: "ports_row list option"
  writes :: "write_call list"

definition spark_read_load ::
  "(string \<Rightarrow> 'a option) \<Rightarrow> string \<Rightarrow> session_state \<Rightarrow> spark_error + ('a \<times> session_state)" where
  "spark_read_load reader path s =
     (case reader path of
        None \<Rightarrow> Inl (LoadFailed path)
      | Some df \<Rightarrow> Inr (df, s\<lparr>loads := loads s @ [path]\<rparr>))"

definition write_parquet ::
  "string \<Rightarrow> write_mode \<Rightarrow> string list \<Rightarrow> table \<Rightarrow> session_state \<Rightarrow> session_state" where
  "write_parquet folder mode parts t s = s\<lparr>writes := writes s @ [Write folder mode parts t]\<rparr>"

definition read_country_data ::
  "spark_session \<Rightarrow> string \<Rightarrow> string \<Rightarrow> string \<Rightarrow> session_state \<Rightarrow> spark_error + session_state" where
  "read_country_data spark country_input_path country_temperature_input_path output_path s =
     (case spark_read_load (csv_countries spark) country_input_path s of
        Inl e \<Rightarrow> Inl e
      | Inr (df_i94_countries, s1) \<Rightarrow>
          (case spark_read_load (csv_country_temperatures spark)
                  ''GlobalLandTemperaturesByCountry.csv'' s1 of
             Inl e \<Rightarrow> Inl e
           | Inr (df_country_temperatures, s2) \<Rightarrow>
               Inr (write_parquet (output_path @ ''/parquet/Country_table'') Overwrite []
                      (Country_table
                         (country_table df_i94_countries
                            (country_temperatures_view df_country_temperatures))) s2)))"

definition read_port_data ::
  "spark_session \<Rightarrow> string \<Rightarrow> session_state \<Rightarrow> spark_error + (ports_row list \<times> session_state)" where
  "read_port_data spark ports_input_path s =
     (case spark_read_load (csv_ports spark) ports_input_path s of
        Inl e \<Rightarrow> Inl e
      | Inr (df_i94_ports, s1) \<Rightarrow> Inr (df_i94_ports, s1\<lparr>ports_view := Some df_i94_ports\<rparr>))"

definition lookup_ports_view :: "session_state \<Rightarrow> spark_error + ports_row list" where
  "lookup_ports_view s =
     (case ports_view s of
        None \<Rightarrow> Inl (AnalysisException ''Table or view not found: ports_view'')
      | Some v \<Rightarrow> Inr v)"

definition read_demographics_data ::
  "spark_session \<Rightarrow> ports_row list \<Rightarrow> string \<Rightarrow> string \<Rightarrow> session_state \<Rightarrow> spark_error + session_state" where
  "read_demographics_data spark port_df_view demo_input_path output_path s =
     (case spark_read_load (csv_demographics spark) ''us-cities-demographics.csv'' s of
        Inl e \<Rightarrow> Inl e
      | Inr (df_demographics, s1) \<Rightarrow>
          (case lookup_ports_view s1 of
             Inl e \<Rightarrow> Inl e
           | Inr pv \<Rightarrow>
               Inr (write_parquet (output_path @ ''/parquet/Demographics_table'') Overwrite []
                      (Demographics_table (demographics_table pv df_demographics)) s1)))"

definition read_airport_data ::
  "spark_session \<Rightarrow> ports_row list \<Rightarrow> string \<Rightarrow> string \<Rightarrow> session_state \<Rightarrow> spark_error + session_state" where
  "read_airport_data spark port_df_view airports_input_path output_path s =
     (case spark_read_load (csv_airports spark) airports_input_path s of
        Inl e \<Rightarrow> Inl e
      | Inr (df_airports, s1) \<Rightarrow>
          (case lookup_ports_view s1 of
             Inl e \<Rightarrow> Inl e
           | Inr pv \<Rightarrow>
               Inr (write_parquet (output_path @ ''/parquet/airports_table'') Overwrite [''State_Code'']
                      (Airports_table (airports_table (cast_float spark) pv (airport_view df_airports)))
                      s1)))"

definition read_immigration_data ::
  "spark_session \<Rightarrow> string \<Rightarrow> string \<Rightarrow> session_state \<Rightarrow> spark_error + session_state" where
  "read_immigration_data spark input_path output_path s =
     (case spark_read_load (sas_immigrations spark) input_path s of
        Inl e \<Rightarrow> Inl e
      | Inr (immigrations_view, s1) \<Rightarrow>
          (let df_immigrations = immigrations_table immigrations_view;
               s2 = write_parquet (output_path @ ''/parquet/immigrations_table'') Append
                      [''Year'', ''Month''] (Immigrations_table df_immigrations) s1
           in case time_table immigrations_view of
                Inl e \<Rightarrow> Inl e
              | Inr df_time_table \<Rightarrow>
                  Inr (write_parquet (output_path @ ''/parquet/time_table'') Append
                         [''year'', ''month''] (Time_table df_time_table) s2)))"

definition read_city_temperatures ::
  "spark_session \<Rightarrow> ports_row list \<Rightarrow> string \<Rightarrow> string \<Rightarrow> session_state \<Rightarrow> spark_error + session_state" where
  "read_city_temperatures spark port_df_view city_temperature_input_path output_path s =
     (case spark_read_load (csv_city_temperatures spark)
             ''../../data2/GlobalLandTemperaturesByCity.csv'' s of
        Inl e \<Rightarrow> Inl e
      | Inr (df, s1) \<Rightarrow>
          (case lookup_ports_view s1 of
             Inl e \<Rightarrow> Inl e
           | Inr pv \<Rightarrow>
               Inr (write_parquet (output_path @ ''/parquet/city_temperatures'') Append []
                      (City_temperatures_table
                         (city_temperatures_table pv (city_temperatures_view df))) s1)))"

text \<open>The paths read from the configuration file, lines 24 to 31.\<close>

record config =
  I94_INPUT_PATH :: string
  AIRPORTS_INPUT_PATH :: string
  PORTS_INPUT_PATH :: string
  COUNTRY_INPUT_PATH :: string
  COUNTRY_TEMPERATURE_INPUT_PATH :: string
  CITY_TEMPERATURE_INPUT_PATH :: string
  DEMO_INPUT_PATH :: string
  OUTPUT_PATH :: string

definition initial_state :: session_state where
  "initial_state = \<lparr>loads = [], ports_view = None, writes = []\<rparr>"

definition main :: "spark_session \<Rightarrow> config \<Rightarrow> spark_error + session_state" where
  "main spark cfg =
     (case read_country_data spark (COUNTRY_INPUT_PATH cfg) (COUNTRY_TEMPERATURE_INPUT_PATH cfg)
             (OUTPUT_PATH cfg) initial_state of
        Inl e \<Rightarrow> Inl e
      | Inr s1 \<Rightarrow>
     (case read_port_data spark (PORTS_INPUT_PATH cfg) s1 of
        Inl e \<Rightarrow> Inl e
      | Inr (df_i94_ports_view, s2) \<Rightarrow>
     (case read_demographics_data spark df_i94_ports_view (DEMO_INPUT_PATH cfg) (OUTPUT_PATH cfg) s2 of
        Inl e \<Rightarrow> Inl e
      | Inr s3 \<Rightarrow>
     (case read_airport_data spark df_i94_ports_view (AIRPORTS_INPUT_PATH cfg) (OUTPUT_PATH cfg) s3 of
        Inl e \<Rightarrow> Inl e
      | Inr s4 \<Rightarrow>
     (case read_immigration_data spark (I94_INPUT_PATH cfg) (OUTPUT_PATH cfg) s4 of
        Inl e \<Rightarrow> Inl e
      | Inr s5 \<Rightarrow>
          read_city_temperatures spark df_i94_ports_view (CITY_TEMPERATURE_INPUT_PATH cfg)
            (OUTPUT_PATH cfg) s5)))))"

section \<open>Qualifying rows and example tables\<close>

text \<open>The rows that pass the filters placed before the ranking, for each of the two reductions.\<close>

abbreviation country_qualifies :: "country_temperatures_row \<Rightarrow> bool" where
  "country_qualifies r \<equiv> sql_holds (after_1999 (ct_dt r)) \<and> ct_AverageTemperature r \<noteq> None"

abbreviation city_qualifies :: "city_temperatures_row \<Rightarrow> bool" where
  "city_qualifies r \<equiv>
     sql_holds (after_1999 (cy_dt r)) \<and> sql_holds (sql_eq (cy_Country r) (Some ''United States''))"

text \<open>Small tables on which the theorems below are instantiated.\<close>

definition ex_ports :: "ports_row list" where
  "ex_ports =
     [\<lparr>p_Port_Code = Some ''ATL'', p_Port_City = Some ''Atlanta'', p_State_Code = Some '' GA''\<rparr>,
      \<lparr>p_Port_Code = Some ''ANC'', p_Port_City = Some ''ANCHORAGE'', p_State_Code = Some '' AK''\<rparr>]"

definition ex_airport :: "string \<Rightarrow> string \<Rightarrow> string \<Rightarrow> int option \<Rightarrow> airports_row" where
  "ex_airport code region nm ft =
     \<lparr>a_ident = Some (''K'' @ code), a_type = Some ''large_airport'', a_name = Some nm,
      a_elevation_ft = ft, a_continent = None, a_iso_country = Some ''US'',
      a_iso_region = Some region, a_municipality = None, a_gps_code = None,
      a_iata_code = Some code, a_local_code = None, a_coordinates = Some ''-84.4, 33.6''\<rparr>"

definition ex_airports :: "airports_row list" where
  "ex_airports =
     [ex_airport ''ATL'' ''US-GA'' ''Hartsfield Jackson'' (Some 1026),
      ex_airport ''ANC'' ''US-AK'' ''Ted Stevens'' None]"

definition ex_demo :: "string \<Rightarrow> string \<Rightarrow> demo_row" where
  "ex_demo city st =
     \<lparr>d_City = Some city, d_State = Some ''Georgia'', d_Median_Age = Some 35,
      d_Male_Population = Some 223960, d_Female_Population = Some 239806,
      d_Total_Population = Some 463766, d_Number_of_Veterans = Some 17578,
      d_Foreign_born = Some 32016, d_Avg_Household_Size = Some (223 / 100),
      d_State_Code = Some st, d_Race = Some ''White'', d_Count = Some 193960\<rparr>"


definition ex_country_temperature ::
  "int \<Rightarrow> int \<Rightarrow> int \<Rightarrow> rat option \<Rightarrow> string \<Rightarrow> country_temperatures_row" where
  "ex_country_temperature y m d t c =
     \<lparr>ct_dt = Some (Date (ymd2ord y m d)), ct_AverageTemperature = t,
      ct_AverageTemperatureUncertainty = map_option (\<lambda>x. x / 10) t, ct_Country = Some c\<rparr>"

definition ex_country_temperatures :: "country_temperatures_row list" where
  "ex_country_temperatures =
     [ex_country_temperature 2013 8 1 (Some 15) ''Albania'',
      ex_country_temperature 2013 9 1 None ''Albania'',
      ex_country_temperature 2013 7 1 (Some 17) ''Albania'',
      ex_country_temperature 1998 7 1 (Some 17) ''Atlantis'']"

definition ex_countries :: "countries_row list" where
  "ex_countries =
     [\<lparr>cv_Country_Code = Some 101, cv_Country = Some ''ALBANIA''\<rparr>,
      \<lparr>cv_Country_Code = Some 999, cv_Country = Some ''ATLANTIS''\<rparr>]"

definition ex_tied_country_temperatures :: "country_temperatures_row list" where
  "ex_tied_country_temperatures =
     [ex_country_temperature 2013 9 1 (Some 15) ''Albania'',
      ex_country_temperature 2013 9 1 (Some 16) ''Albania'']"

definition ex_city_temperature ::
  "int \<Rightarrow> int \<Rightarrow> int \<Rightarrow> rat option \<Rightarrow> string \<Rightarrow> string \<Rightarrow> city_temperatures_row" where
  "ex_city_temperature y m d t city country =
     \<lparr>cy_dt = Some (Date (ymd2ord y m d)), cy_AverageTemperature = t,
      cy_AverageTemperatureUncertainty = map_option (\<lambda>x. x / 10) t, cy_City = Some city,
      cy_Country = Some country, cy_Latitude = Some ''41.85N'', cy_Longitude = Some ''87.65W''\<rparr>"

definition ex_city_temperatures :: "city_temperatures_row list" where
  "ex_city_temperatures =
     [ex_city_temperature 2015 1 1 (Some 1) ''Chicago'' ''United States'',
      ex_city_temperature 2015 6 1 (Some 20) ''Chicago'' ''United States'',
      ex_city_temperature 1998 1 1 (Some 5) ''Chicago'' ''United States'',
      ex_city_temperature 2015 7 1 (Some 9) ''Chicago'' ''Canada'']"

definition ex_null_city_temperatures :: "city_temperatures_row list" where
  "ex_null_city_temperatures =
     [ex_city_temperature 2015 6 1 (Some 20) ''Chicago'' ''United States'',
      ex_city_temperature 2015 7 1 None ''Chicago'' ''United States'']"

definition ex_immigration :: "rat \<Rightarrow> rat option \<Rightarrow> rat option \<Rightarrow> immigrations_row" where
  "ex_immigration cicid arr dep =
     \<lparr>im_cicid = Some cicid, im_i94yr = Some 2016, im_i94mon = Some 4, im_i94cit = Some 245,
      im_i94port = Some ''ATL'', im_biryear = Some 1976, im_airline = Some ''DL'',
      im_fltno = Some ''00123'', im_i94visa = Some 2, im_i94mode = Some 1,
      im_arrdate = arr, im_depdate = dep\<rparr>"

definition ex_immigrations :: "immigrations_row list" where
  "ex_immigrations =
     [ex_immigration 5748881 (Some 20574) (Some 20580),
      ex_immigration 5748882 (Some 20576) None,
      ex_immigration 5748883 (Some 20574) (Some 20575)]"

text \<open>A session in which every path holds the example table of its kind.\<close>

definition ex_spark :: spark_session where
  "ex_spark =
     \<lparr>csv_countries = (\<lambda>path. Some ex_countries),
      csv_country_temperatures = (\<lambda>path. Some ex_country_temperatures),
      csv_ports = (\<lambda>path. Some ex_ports),
      csv_demographics = (\<lambda>path. Some [ex_demo ''ATLANTA'' ''GA'']),
      csv_airports = (\<lambda>path. Some ex_airports),
      sas_immigrations = (\<lambda>path. Some ex_immigrations),
      csv_city_temperatures = (\<lambda>path. Some ex_city_temperatures),
      cast_float = (\<lambda>text. None)\<rparr>"

definition ex_config :: config where
  "ex_config =
     \<lparr>I94_INPUT_PATH = ''s3://dend/i94_apr16_sub.sas7bdat'',
      AIRPORTS_INPUT_PATH = ''s3://dend/airport-codes_csv.csv'',
      PORTS_INPUT_PATH = ''s3://dend/i94_ports.csv'',
      COUNTRY_INPUT_PATH = ''s3://dend/i94_countries.csv'',
      COUNTRY_TEMPERATURE_INPUT_PATH = ''s3://dend/GlobalLandTemperaturesByCountry.csv'',
      CITY_TEMPERATURE_INPUT_PATH = ''s3://dend/GlobalLandTemperaturesByCity.csv'',
      DEMO_INPUT_PATH = ''s3://dend/us-cities-demographics.csv'',
      OUTPUT_PATH = ''s3://dend/output''\<rparr>"

text \<open>The row of the time table for a date: the six selected cells.\<close>

abbreviation time_table_row :: "date option \<Rightarrow> named_row" where
  "time_table_row d \<equiv>
     [(''sas_date'', DateCell d), (''year'', IntCell (sql_year d)), (''month'', IntCell (sql_month d)),
      (''weekofyear'', IntCell (sql_weekofyear d)), (''quarter'', IntCell (sql_quarter d)),
      (''dayofweek'', IntCell (sql_dayofweek d))]"

section \<open>Properties of the codec layer\<close>

lemma ymd2ord_1960: "ymd2ord 1960 1 1 = 715510"
  by (simp add: ymd2ord_def days_before_year_def days_before_month_def DAYS_BEFORE_MONTH_def
      is_leap_def)

lemma convert_datetime_try_int:
  "convert_datetime_try (PyInt d) =
     (if - 999999999 \<le> d \<and> d \<le> 999999999 \<and> - 715510 < d \<and> d \<le> 2936549
      then Inr (Date (715510 + d)) else Inl OverflowError)"
  by (simp add: convert_datetime_try_def timedelta_def datetime_add_def MAXORDINAL_def
      ymd2ord_1960 Let_def)

text \<open>
  Claim C5. \<open>convert_i94mode\<close> and \<open>convert_visatype\<close> return a string on every integer and on
  \<^verbatim>\<open>None\<close>: the travel mode is Air for 1, Sea for 2, Land for 3 and Unknown for every other
  integer and for \<^verbatim>\<open>None\<close>; the visa type is Not Reported for \<^verbatim>\<open>None\<close>, Business for 1,
  Pleasure for 2, Student for 3 and Unknown for every other integer. Both functions have no
  failing branch.
\<close>

theorem codes_decoded_totally:
  "convert_i94mode (PyInt n) =
     (if n = 1 then ''Air'' else if n = 2 then ''Sea'' else if n = 3 then ''Land'' else ''Unknown'')
   \<and> convert_i94mode PyNone = ''Unknown''
   \<and> convert_visatype PyNone = ''Not Reported''
   \<and> convert_visatype (PyInt n) =
     (if n = 1 then ''Business'' else if n = 2 then ''Pleasure'' else if n = 3 then ''Student''
      else ''Unknown'')"
  by (simp add: convert_i94mode_def convert_visatype_def)

text \<open>
  Claim C4, as the code has it. For every integer day offset \<open>d\<close> from 0 to 2936549,
  \<open>convert_datetime\<close> returns the date 1960-01-01 plus \<open>d\<close> days (the last of them is
  9999-12-31); for a larger integer the addition overflows the date range and the function
  returns \<^verbatim>\<open>None\<close>. For \<^verbatim>\<open>None\<close>, for NaN and the infinities, and for every string that
  \<^verbatim>\<open>int()\<close> rejects, the exception raised inside is caught and the function returns \<^verbatim>\<open>None\<close>.
\<close>

theorem convert_datetime_offsets:
  "(0 \<le> d \<and> d \<le> 2936549 \<longrightarrow>
      convert_datetime (PyInt d) = Some (Date (ymd2ord 1960 1 1 + d)))
   \<and> (2936549 < d \<longrightarrow> convert_datetime (PyInt d) = None)
   \<and> ord2ymd (ymd2ord 1960 1 1) = (1960, 1, 1)
   \<and> ord2ymd (ymd2ord 1960 1 1 + 2936549) = (9999, 12, 31)
   \<and> convert_datetime_try PyNone = Inl TypeError \<and> convert_datetime PyNone = None
   \<and> convert_datetime PyNan = None \<and> convert_datetime PyInf = None
   \<and> (py_int_of_str s = None \<longrightarrow>
        convert_datetime_try (PyStr s) = Inl ValueError \<and> convert_datetime (PyStr s) = None)"
proof -
  have a: "0 \<le> d \<and> d \<le> 2936549 \<longrightarrow>
      convert_datetime (PyInt d) = Some (Date (ymd2ord 1960 1 1 + d))"
    by (simp add: convert_datetime_def convert_datetime_try_int ymd2ord_1960)
  have b: "2936549 < d \<longrightarrow> convert_datetime (PyInt d) = None"
    by (simp add: convert_datetime_def convert_datetime_try_int)
  have c: "ord2ymd (ymd2ord 1960 1 1) = (1960, 1, 1)"
    by (simp add: ymd2ord_1960 ord2ymd_def Let_def DAYS_BEFORE_MONTH_def DAYS_IN_MONTH_def)
  have d: "ord2ymd (ymd2ord 1960 1 1 + 2936549) = (9999, 12, 31)"
    by (simp add: ymd2ord_1960 ord2ymd_def Let_def DAYS_BEFORE_MONTH_def DAYS_IN_MONTH_def)
  have e: "convert_datetime_try PyNone = Inl TypeError \<and> convert_datetime PyNone = None
      \<and> convert_datetime PyNan = None \<and> convert_datetime PyInf = None"
    by (simp add: convert_datetime_def convert_datetime_try_def)
  have f: "py_int_of_str s = None \<longrightarrow>
        convert_datetime_try (PyStr s) = Inl ValueError \<and> convert_datetime (PyStr s) = None"
    by (simp add: convert_datetime_def convert_datetime_try_def)
  from a b c d e f show ?thesis by blast
qed

theorem convert_datetime_offsets_witness:
  "convert_datetime (PyInt 20574) = Some (Date 736084)
   \<and> convert_datetime (PyInt 3000000) = None
   \<and> py_int_of_str ''abc'' = None \<and> convert_datetime (PyStr ''abc'') = None"
proof -
  have s: "py_int_of_str ''abc'' = None"
    by (simp add: py_int_of_str_def py_strip_def py_isspace_def py_unsigned_def digit_val_def)
  show ?thesis
    using convert_datetime_offsets [of 20574 "''abc''"] convert_datetime_offsets [of 3000000 "''abc''"] s
    by (simp add: ymd2ord_1960)
qed

text \<open>
  The claim as written fails past the last representable date: the offset 2936550 would give
  10000-01-01, and the function returns \<^verbatim>\<open>None\<close>.
\<close>

theorem convert_datetime_large_offset_counterexample:
  "(0::int) \<le> 2936550
   \<and> convert_datetime (PyInt 2936550) = None
   \<and> convert_datetime (PyInt 2936550) \<noteq> Some (Date (ymd2ord 1960 1 1 + 2936550))"
  by (simp add: convert_datetime_def convert_datetime_try_int)

section \<open>Properties of the joins\<close>

lemma set_inner_join:
  "set (inner_join on ls rs) = {(l, r). l \<in> set ls \<and> r \<in> set rs \<and> on l r = Some True}"
  by (auto simp: inner_join_def sql_holds_def)


lemma sql_eq_Some_True: "sql_eq a b = Some True \<longleftrightarrow> (\<exists>x. a = Some x \<and> b = Some x)"
  by (auto simp: sql_eq_def split: option.splits)


lemma elevation_metres_of_div: "elevation_metres_of ft = - (- (ft * 3048) div 10000)"
proof -
  have "of_int ft * (3048 / 10000 :: rat) = of_int (ft * 3048) / of_int 10000"
    by simp
  then show ?thesis
    unfolding elevation_metres_of_def by (simp only: ceiling_divide_eq_div)
qed

lemma airport_view_source:
  "v \<in> set (airport_view airports) \<Longrightarrow>
     \<exists>a \<in> set airports. a_name v = a_name a \<and> a_iata_code v = a_iata_code a
       \<and> a_elevation_ft v = a_elevation_ft a"
  by (auto simp: airport_view_def Let_def airports_row.defs)

text \<open>
  Claim C6. Every row of the joined airport table has \<open>elevation_metres\<close> equal to the ceiling of
  \<open>elevation_feet\<close> times 0.3048, where \<open>elevation_feet\<close> is the source's \<open>elevation_ft\<close>, or 0
  when the source value is absent; a row with \<open>elevation_feet = 0\<close> has \<open>elevation_metres = 0\<close>.
\<close>

theorem airport_elevation_metres:
  "\<forall>out \<in> set (airports_table cast ports (airport_view airports)).
     ap_elevation_metres out = \<lceil>of_int (ap_elevation_feet out) * (3048 / 10000 :: rat)\<rceil>
     \<and> (\<exists>a \<in> set airports. ap_name out = a_name a \<and> ap_iata_code out = a_iata_code a
           \<and> ap_elevation_feet out = (case a_elevation_ft a of None \<Rightarrow> 0 | Some ft \<Rightarrow> ft))
     \<and> (ap_elevation_feet out = 0 \<longrightarrow> ap_elevation_metres out = 0)"
proof
  fix out assume "out \<in> set (airports_table cast ports (airport_view airports))"
  then obtain p v where v: "v \<in> set (airport_view airports)"
    and out: "out = airports_table_of cast p v"
    by (auto simp: airports_table_def set_inner_join)
  from airport_view_source [OF v] obtain a where a: "a \<in> set airports" "a_name v = a_name a"
      "a_iata_code v = a_iata_code a" "a_elevation_ft v = a_elevation_ft a"
    by blast
  have 1: "ap_elevation_metres out = \<lceil>of_int (ap_elevation_feet out) * (3048 / 10000 :: rat)\<rceil>"
    by (simp add: out airports_table_of_def elevation_metres_of_def)
  have 2: "ap_name out = a_name a \<and> ap_iata_code out = a_iata_code a
           \<and> ap_elevation_feet out = (case a_elevation_ft a of None \<Rightarrow> 0 | Some ft \<Rightarrow> ft)"
    by (simp add: out airports_table_of_def a ifnull_def)
  have 3: "ap_elevation_feet out = 0 \<longrightarrow> ap_elevation_metres out = 0"
    by (simp add: out airports_table_of_def elevation_metres_of_def)
  from 1 2 3 a(1)
  show "ap_elevation_metres out = \<lceil>of_int (ap_elevation_feet out) * (3048 / 10000 :: rat)\<rceil>
     \<and> (\<exists>a \<in> set airports. ap_name out = a_name a \<and> ap_iata_code out = a_iata_code a
           \<and> ap_elevation_feet out = (case a_elevation_ft a of None \<Rightarrow> 0 | Some ft \<Rightarrow> ft))
     \<and> (ap_elevation_feet out = 0 \<longrightarrow> ap_elevation_metres out = 0)"
    by blast
qed

theorem airport_elevation_metres_witness:
  "map (\<lambda>r. (ap_Port_Code r, ap_elevation_feet r, ap_elevation_metres r))
     (airports_table (\<lambda>x. None) ex_ports (airport_view ex_airports))
     = [(Some ''ATL'', 1026, 313), (Some ''ANC'', 0, 0)]
   \<and> (\<exists>out \<in> set (airports_table (\<lambda>x. None) ex_ports (airport_view ex_airports)).
        ap_elevation_feet out = 1026
        \<and> ap_elevation_metres out = \<lceil>of_int (ap_elevation_feet out) * (3048 / 10000 :: rat)\<rceil>)
   \<and> (\<exists>out \<in> set (airports_table (\<lambda>x. None) ex_ports (airport_view ex_airports)).
        ap_elevation_feet out = 0 \<and> ap_elevation_metres out = 0)"
proof -
  let ?t = "airports_table (\<lambda>x. None) ex_ports (airport_view ex_airports)"
  have rows: "map (\<lambda>r. (ap_Port_Code r, ap_elevation_feet r, ap_elevation_metres r)) ?t
     = [(Some ''ATL'', 1026, 313), (Some ''ANC'', 0, 0)]"
    by (simp add: airports_table_def airport_view_def inner_join_def ex_ports_def ex_airports_def
        ex_airport_def sql_holds_def sql_and_def sql_eq_def sql_neq_def sql_concat_def sql_trim_def
        airports_table_of_def ifnull_def elevation_metres_of_div Let_def airports_row.defs
        sql_split_def getItem_def)
  then obtain a b where ab: "?t = [a, b]" "ap_elevation_feet a = 1026" "ap_elevation_feet b = 0"
    by auto
  then have mem: "a \<in> set ?t" "b \<in> set ?t" by simp_all
  note inst = airport_elevation_metres [of "\<lambda>x. None" ex_ports ex_airports]
  from inst [THEN bspec, OF mem(1)] ab(2) mem(1)
  have 1: "\<exists>out \<in> set ?t. ap_elevation_feet out = 1026
        \<and> ap_elevation_metres out = \<lceil>of_int (ap_elevation_feet out) * (3048 / 10000 :: rat)\<rceil>"
    by blast
  from inst [THEN bspec, OF mem(2)] ab(3) mem(2)
  have 2: "\<exists>out \<in> set ?t. ap_elevation_feet out = 0 \<and> ap_elevation_metres out = 0"
    by blast
  from rows 1 2 show ?thesis by (intro conjI)
qed





section \<open>Properties of the latest-measurement reduction\<close>

lemma dense_rank_desc_eq_1:
  "dense_rank_desc part ord df r = 1 \<longleftrightarrow> (\<forall>x \<in> set df. part x = part r \<longrightarrow> ord x \<le> ord r)"
  by (auto simp: dense_rank_desc_def filter_empty_conv not_less)

lemma dense_rank_desc_eq_Suc_0:
  "dense_rank_desc part ord df r = Suc 0 \<longleftrightarrow> (\<forall>x \<in> set df. part x = part r \<longrightarrow> ord x \<le> ord r)"
  using dense_rank_desc_eq_1 [of part ord df r] by simp

lemma latest_view_set:
  "set (sort_key k (filter (\<lambda>x. snd x = 1) (map (\<lambda>r. (r, dense_rank_desc part ord df2 r)) df2))) =
     {(r, 1) | r. r \<in> set df2 \<and> (\<forall>x \<in> set df2. part x = part r \<longrightarrow> ord x \<le> ord r)}"
proof -
  have "\<And>r. (Suc 0 = dense_rank_desc part ord df2 r) =
      (\<forall>x \<in> set df2. part x = part r \<longrightarrow> ord x \<le> ord r)"
    using dense_rank_desc_eq_Suc_0 [of part ord df2] by metis
  then show ?thesis
    by (auto simp: dense_rank_desc_eq_Suc_0 image_iff)
qed

lemma latest_view_count:
  "length (filter (\<lambda>x. part (fst x) = g)
      (sort_key k (filter (\<lambda>x. snd x = 1) (map (\<lambda>r. (r, dense_rank_desc part ord df2 r)) df2)))) =
   length (filter (\<lambda>r. part r = g \<and> (\<forall>x \<in> set df2. part x = part r \<longrightarrow> ord x \<le> ord r)) df2)"
proof -
  have "length (filter (\<lambda>x. part (fst x) = g)
      (sort_key k (filter (\<lambda>x. snd x = 1) (map (\<lambda>r. (r, dense_rank_desc part ord df2 r)) df2)))) =
    length (filter (\<lambda>x. part (fst x) = g)
      (filter (\<lambda>x. snd x = 1) (map (\<lambda>r. (r, dense_rank_desc part ord df2 r)) df2)))"
    by (simp only: filter_sort length_sort)
  also have "\<dots> = length (filter (\<lambda>r. part r = g \<and> dense_rank_desc part ord df2 r = 1) df2)"
    by (simp add: filter_map o_def conj_commute del: One_nat_def)
  also have "\<dots> = length (filter (\<lambda>r. part r = g \<and> (\<forall>x \<in> set df2. part x = part r \<longrightarrow> ord x \<le> ord r)) df2)"
    by (simp only: dense_rank_desc_eq_1)
  finally show ?thesis .
qed

lemma set_country_temperatures_view:
  "set (country_temperatures_view df) =
     {(r, 1) | r. r \<in> set df \<and> country_qualifies r
        \<and> (\<forall>x \<in> set df. country_qualifies x \<and> ct_Country x = ct_Country r \<longrightarrow>
              date_key (ct_dt x) \<le> date_key (ct_dt r))}"
  unfolding country_temperatures_view_def Let_def latest_view_set by auto

lemma count_country_temperatures_view:
  "length (filter (\<lambda>x. ct_Country (fst x) = g) (country_temperatures_view df)) =
   length (filter (\<lambda>r. country_qualifies r \<and> ct_Country r = g
        \<and> (\<forall>x \<in> set df. country_qualifies x \<and> ct_Country x = ct_Country r \<longrightarrow>
              date_key (ct_dt x) \<le> date_key (ct_dt r))) df)"
  unfolding country_temperatures_view_def Let_def latest_view_count
  by (auto simp: conj_commute conj_left_commute intro!: arg_cong [where f = length] filter_cong)

lemma set_city_temperatures_view:
  "set (city_temperatures_view df) =
     {(r, 1) | r. r \<in> set df \<and> city_qualifies r
        \<and> (\<forall>x \<in> set df. city_qualifies x \<and> cy_City x = cy_City r \<longrightarrow>
              date_key (cy_dt x) \<le> date_key (cy_dt r))}"
  unfolding city_temperatures_view_def Let_def latest_view_set by auto

lemma count_city_temperatures_view:
  "length (filter (\<lambda>x. cy_City (fst x) = g) (city_temperatures_view df)) =
   length (filter (\<lambda>r. city_qualifies r \<and> cy_City r = g
        \<and> (\<forall>x \<in> set df. city_qualifies x \<and> cy_City x = cy_City r \<longrightarrow>
              date_key (cy_dt x) \<le> date_key (cy_dt r))) df)"
  unfolding city_temperatures_view_def Let_def latest_view_count
  by (auto simp: conj_commute conj_left_commute intro!: arg_cong [where f = length] filter_cong)

lemma exists_latest:
  fixes key :: "'r \<Rightarrow> 'o::linorder"
  assumes "r \<in> set df" "Q r"
  shows "\<exists>m \<in> set df. Q m \<and> (\<forall>x \<in> set df. Q x \<longrightarrow> key x \<le> key m)"
proof -
  let ?S = "key ` {x \<in> set df. Q x}"
  have fin: "finite ?S" by simp
  have ne: "?S \<noteq> {}" using assms by auto
  have "Max ?S \<in> ?S" using fin ne by (rule Max_in)
  then obtain m where m: "m \<in> set df" "Q m" "key m = Max ?S" by auto
  have "\<forall>x \<in> set df. Q x \<longrightarrow> key x \<le> key m"
    using m(3) fin by auto
  with m show ?thesis by blast
qed

text \<open>
  Claim C2, as the code has it. In the order of dates NULL is least, so \<open>date_key a \<le> date_key b\<close>
  between two dated rows says that \<open>b\<close> is not older than \<open>a\<close>.
  Country level: every row of the reduced table is a row of the input dated after 1999-12-31
  with a temperature, of rank 1. A country with such a row has at least one row in the reduced
  table; each of its rows there carries the most recent date among the country's rows after
  1999-12-31 with a temperature; and it has as many rows there as it has such input rows on
  that most recent date: one when a single row carries that date, all of them when several do.
  A country with no such row has no row in the reduced table.
  City level: the same over the rows dated after 1999-12-31 of the United States, for a city
  whose rows of that kind all have a temperature.
\<close>

theorem latest_measurement_reduction:
  "(\<forall>x \<in> set (country_temperatures_view df).
      fst x \<in> set df \<and> country_qualifies (fst x) \<and> snd x = 1)
   \<and> (\<forall>r \<in> set df. country_qualifies r \<longrightarrow>
        (\<exists>x \<in> set (country_temperatures_view df). ct_Country (fst x) = ct_Country r)
        \<and> (\<forall>x \<in> set (country_temperatures_view df). ct_Country (fst x) = ct_Country r \<longrightarrow>
              date_key (ct_dt r) \<le> date_key (ct_dt (fst x)))
        \<and> length (filter (\<lambda>x. ct_Country (fst x) = ct_Country r) (country_temperatures_view df)) =
          length (filter (\<lambda>y. country_qualifies y \<and> ct_Country y = ct_Country r
                    \<and> (\<forall>z \<in> set df. country_qualifies z \<and> ct_Country z = ct_Country y \<longrightarrow>
                          date_key (ct_dt z) \<le> date_key (ct_dt y))) df))
   \<and> (\<forall>x \<in> set (city_temperatures_view cdf).
        fst x \<in> set cdf \<and> city_qualifies (fst x) \<and> snd x = 1)
   \<and> (\<forall>r \<in> set cdf.
        city_qualifies r
        \<and> (\<forall>y \<in> set cdf. city_qualifies y \<and> cy_City y = cy_City r \<longrightarrow>
              cy_AverageTemperature y \<noteq> None) \<longrightarrow>
        (\<exists>x \<in> set (city_temperatures_view cdf). cy_City (fst x) = cy_City r)
        \<and> (\<forall>x \<in> set (city_temperatures_view cdf). cy_City (fst x) = cy_City r \<longrightarrow>
              cy_AverageTemperature (fst x) \<noteq> None
              \<and> date_key (cy_dt r) \<le> date_key (cy_dt (fst x)))
        \<and> length (filter (\<lambda>x. cy_City (fst x) = cy_City r) (city_temperatures_view cdf)) =
          length (filter (\<lambda>y. city_qualifies y \<and> cy_City y = cy_City r
                    \<and> (\<forall>z \<in> set cdf. city_qualifies z \<and> cy_City z = cy_City y \<longrightarrow>
                          date_key (cy_dt z) \<le> date_key (cy_dt y))) cdf))"
proof -
  have c1: "\<forall>x \<in> set (country_temperatures_view df).
      fst x \<in> set df \<and> country_qualifies (fst x) \<and> snd x = 1"
    by (auto simp: set_country_temperatures_view)
  have c2: "\<forall>r \<in> set df. country_qualifies r \<longrightarrow>
        (\<exists>x \<in> set (country_temperatures_view df). ct_Country (fst x) = ct_Country r)
        \<and> (\<forall>x \<in> set (country_temperatures_view df). ct_Country (fst x) = ct_Country r \<longrightarrow>
              date_key (ct_dt r) \<le> date_key (ct_dt (fst x)))
        \<and> length (filter (\<lambda>x. ct_Country (fst x) = ct_Country r) (country_temperatures_view df)) =
          length (filter (\<lambda>y. country_qualifies y \<and> ct_Country y = ct_Country r
                    \<and> (\<forall>z \<in> set df. country_qualifies z \<and> ct_Country z = ct_Country y \<longrightarrow>
                          date_key (ct_dt z) \<le> date_key (ct_dt y))) df)"
  proof (intro ballI impI conjI)
    fix r assume r: "r \<in> set df" "country_qualifies r"
    from exists_latest [of r df "\<lambda>x. country_qualifies x \<and> ct_Country x = ct_Country r"
        "\<lambda>x. date_key (ct_dt x)"] r
    obtain m where m: "m \<in> set df" "country_qualifies m" "ct_Country m = ct_Country r"
      "\<forall>x \<in> set df. country_qualifies x \<and> ct_Country x = ct_Country r \<longrightarrow>
          date_key (ct_dt x) \<le> date_key (ct_dt m)"
      by auto
    then have "(m, 1) \<in> set (country_temperatures_view df)"
      by (simp add: set_country_temperatures_view)
    with m(3) show "\<exists>x \<in> set (country_temperatures_view df). ct_Country (fst x) = ct_Country r"
      by force
    show "length (filter (\<lambda>x. ct_Country (fst x) = ct_Country r) (country_temperatures_view df)) =
          length (filter (\<lambda>y. country_qualifies y \<and> ct_Country y = ct_Country r
                    \<and> (\<forall>z \<in> set df. country_qualifies z \<and> ct_Country z = ct_Country y \<longrightarrow>
                          date_key (ct_dt z) \<le> date_key (ct_dt y))) df)"
      by (rule count_country_temperatures_view)
  next
    fix r x assume r: "r \<in> set df" "country_qualifies r"
      and x: "x \<in> set (country_temperatures_view df)" "ct_Country (fst x) = ct_Country r"
    from x r show "date_key (ct_dt r) \<le> date_key (ct_dt (fst x))"
      by (auto simp: set_country_temperatures_view)
  qed
  have d1: "\<forall>x \<in> set (city_temperatures_view cdf).
        fst x \<in> set cdf \<and> city_qualifies (fst x) \<and> snd x = 1"
    by (auto simp: set_city_temperatures_view)
  have d2: "\<forall>r \<in> set cdf.
        city_qualifies r
        \<and> (\<forall>y \<in> set cdf. city_qualifies y \<and> cy_City y = cy_City r \<longrightarrow>
              cy_AverageTemperature y \<noteq> None) \<longrightarrow>
        (\<exists>x \<in> set (city_temperatures_view cdf). cy_City (fst x) = cy_City r)
        \<and> (\<forall>x \<in> set (city_temperatures_view cdf). cy_City (fst x) = cy_City r \<longrightarrow>
              cy_AverageTemperature (fst x) \<noteq> None
              \<and> date_key (cy_dt r) \<le> date_key (cy_dt (fst x)))
        \<and> length (filter (\<lambda>x. cy_City (fst x) = cy_City r) (city_temperatures_view cdf)) =
          length (filter (\<lambda>y. city_qualifies y \<and> cy_City y = cy_City r
                    \<and> (\<forall>z \<in> set cdf. city_qualifies z \<and> cy_City z = cy_City y \<longrightarrow>
                          date_key (cy_dt z) \<le> date_key (cy_dt y))) cdf)"
  proof (intro ballI impI conjI)
    fix r assume "r \<in> set cdf" and h: "city_qualifies r
        \<and> (\<forall>y \<in> set cdf. city_qualifies y \<and> cy_City y = cy_City r \<longrightarrow>
              cy_AverageTemperature y \<noteq> None)"
    then have r: "r \<in> set cdf" "city_qualifies r" by simp_all
    from exists_latest [of r cdf "\<lambda>x. city_qualifies x \<and> cy_City x = cy_City r"
        "\<lambda>x. date_key (cy_dt x)"] r
    obtain m where m: "m \<in> set cdf" "city_qualifies m" "cy_City m = cy_City r"
      "\<forall>x \<in> set cdf. city_qualifies x \<and> cy_City x = cy_City r \<longrightarrow>
          date_key (cy_dt x) \<le> date_key (cy_dt m)"
      by auto
    then have "(m, 1) \<in> set (city_temperatures_view cdf)"
      by (simp add: set_city_temperatures_view)
    with m(3) show "\<exists>x \<in> set (city_temperatures_view cdf). cy_City (fst x) = cy_City r"
      by force
    show "length (filter (\<lambda>x. cy_City (fst x) = cy_City r) (city_temperatures_view cdf)) =
          length (filter (\<lambda>y. city_qualifies y \<and> cy_City y = cy_City r
                    \<and> (\<forall>z \<in> set cdf. city_qualifies z \<and> cy_City z = cy_City y \<longrightarrow>
                          date_key (cy_dt z) \<le> date_key (cy_dt y))) cdf)"
      by (rule count_city_temperatures_view)
  next
    fix r x assume "r \<in> set cdf" and h: "city_qualifies r
        \<and> (\<forall>y \<in> set cdf. city_qualifies y \<and> cy_City y = cy_City r \<longrightarrow>
              cy_AverageTemperature y \<noteq> None)"
      and x: "x \<in> set (city_temperatures_view cdf)" "cy_City (fst x) = cy_City r"
    from x h show "cy_AverageTemperature (fst x) \<noteq> None"
      by (auto simp: set_city_temperatures_view)
  next
    fix r x assume r: "r \<in> set cdf" and h: "city_qualifies r
        \<and> (\<forall>y \<in> set cdf. city_qualifies y \<and> cy_City y = cy_City r \<longrightarrow>
              cy_AverageTemperature y \<noteq> None)"
      and x: "x \<in> set (city_temperatures_view cdf)" "cy_City (fst x) = cy_City r"
    from x h r show "date_key (cy_dt r) \<le> date_key (cy_dt (fst x))"
      by (auto simp: set_city_temperatures_view)
  qed
  from c1 c2 d1 d2 show ?thesis by blast
qed

theorem latest_measurement_reduction_witness:
  "ex_country_temperature 2013 7 1 (Some 17) ''Albania'' \<in> set ex_country_temperatures
   \<and> country_qualifies (ex_country_temperature 2013 7 1 (Some 17) ''Albania'')
   \<and> (\<exists>x \<in> set (country_temperatures_view ex_country_temperatures).
         ct_Country (fst x) = Some ''Albania'')
   \<and> country_temperatures_view ex_country_temperatures =
       [(ex_country_temperature 2013 8 1 (Some 15) ''Albania'', 1)]
   \<and> ex_city_temperature 2015 1 1 (Some 1) ''Chicago'' ''United States'' \<in> set ex_city_temperatures
   \<and> city_qualifies (ex_city_temperature 2015 1 1 (Some 1) ''Chicago'' ''United States'')
   \<and> (\<exists>x \<in> set (city_temperatures_view ex_city_temperatures). cy_City (fst x) = Some ''Chicago'')
   \<and> city_temperatures_view ex_city_temperatures =
       [(ex_city_temperature 2015 6 1 (Some 20) ''Chicago'' ''United States'', 1)]"
proof -
  let ?r = "ex_country_temperature 2013 7 1 (Some 17) ''Albania''"
  let ?c = "ex_city_temperature 2015 1 1 (Some 1) ''Chicago'' ''United States''"
  have r: "?r \<in> set ex_country_temperatures" by (simp add: ex_country_temperatures_def)
  have rq: "country_qualifies ?r"
    by (simp add: ex_country_temperature_def after_1999_def sql_holds_def ymd2ord_def
        days_before_year_def days_before_month_def DAYS_BEFORE_MONTH_def is_leap_def)
  have rc: "ct_Country ?r = Some ''Albania''" "ct_dt ?r = Some (Date (ymd2ord 2013 7 1))"
    by (simp_all add: ex_country_temperature_def)
  have v: "country_temperatures_view ex_country_temperatures =
       [(ex_country_temperature 2013 8 1 (Some 15) ''Albania'', 1)]"
    by (simp add: country_temperatures_view_def ex_country_temperatures_def
        ex_country_temperature_def after_1999_def sql_holds_def dense_rank_desc_def date_key_def
        ymd2ord_def days_before_year_def days_before_month_def DAYS_BEFORE_MONTH_def is_leap_def
        Let_def)
  have c: "?c \<in> set ex_city_temperatures" by (simp add: ex_city_temperatures_def)
  have cq: "city_qualifies ?c"
    by (simp add: ex_city_temperature_def after_1999_def sql_holds_def sql_eq_def ymd2ord_def
        days_before_year_def days_before_month_def DAYS_BEFORE_MONTH_def is_leap_def)
  have cc: "cy_City ?c = Some ''Chicago''" by (simp add: ex_city_temperature_def)
  have cn: "\<forall>y \<in> set ex_city_temperatures. city_qualifies y \<and> cy_City y = Some ''Chicago'' \<longrightarrow>
         cy_AverageTemperature y \<noteq> None"
    by (simp add: ex_city_temperatures_def ex_city_temperature_def)
  have w: "city_temperatures_view ex_city_temperatures =
       [(ex_city_temperature 2015 6 1 (Some 20) ''Chicago'' ''United States'', 1)]"
    by (simp add: city_temperatures_view_def ex_city_temperatures_def
        ex_city_temperature_def after_1999_def sql_holds_def sql_eq_def dense_rank_desc_def
        date_key_def ymd2ord_def days_before_year_def days_before_month_def DAYS_BEFORE_MONTH_def
        is_leap_def Let_def)
  note inst = latest_measurement_reduction [of ex_country_temperatures ex_city_temperatures]
  note country = inst [THEN conjunct2, THEN conjunct1, THEN bspec, OF r, THEN mp, OF rq]
  have a: "\<exists>x \<in> set (country_temperatures_view ex_country_temperatures).
         ct_Country (fst x) = ct_Country ?r"
    using country [THEN conjunct1] .
  have cn': "\<forall>y \<in> set ex_city_temperatures. city_qualifies y \<and> cy_City y = cy_City ?c \<longrightarrow>
         cy_AverageTemperature y \<noteq> None"
    using cn unfolding cc .
  note city = inst [THEN conjunct2, THEN conjunct2, THEN conjunct2, THEN bspec, OF c, THEN mp,
      OF conjI [OF cq cn']]
  have b: "\<exists>x \<in> set (city_temperatures_view ex_city_temperatures).
         cy_City (fst x) = cy_City ?c"
    using city [THEN conjunct1] .
  show ?thesis
    using r rq a [unfolded rc] v c cq b [unfolded cc] w
    by (intro conjI) (assumption | erule conjunct1 | erule conjunct2)+
qed

text \<open>
  The claim as written fails on two rows of one country that share its most recent date: both
  have rank 1 and both are kept. It also fails on a country measured only before 2000, which
  has no row in the reduced table.
\<close>

theorem one_row_per_group_counterexample:
  "length (filter (\<lambda>x. ct_Country (fst x) = Some ''Albania'')
      (country_temperatures_view ex_tied_country_temperatures)) = 2
   \<and> map (\<lambda>x. ct_AverageTemperature (fst x)) (country_temperatures_view ex_tied_country_temperatures)
       = [Some 15, Some 16]
   \<and> country_temperatures_view [ex_country_temperature 1998 7 1 (Some 17) ''Atlantis''] = []"
  by (simp add: country_temperatures_view_def ex_tied_country_temperatures_def
      ex_country_temperature_def after_1999_def sql_holds_def dense_rank_desc_def date_key_def
      ymd2ord_def days_before_year_def days_before_month_def DAYS_BEFORE_MONTH_def is_leap_def
      Let_def)

text \<open>
  The city-level reduction has no test of the temperature: a more recent row without a
  temperature outranks an older row with one.
\<close>

lemma city_view_keeps_null_temperature:
  "city_temperatures_view ex_null_city_temperatures =
     [(ex_city_temperature 2015 7 1 None ''Chicago'' ''United States'', 1)]"
  by (simp add: city_temperatures_view_def ex_null_city_temperatures_def
        ex_city_temperature_def after_1999_def sql_holds_def sql_eq_def dense_rank_desc_def
        date_key_def ymd2ord_def days_before_year_def days_before_month_def DAYS_BEFORE_MONTH_def
        is_leap_def Let_def)

section \<open>Properties of the immigration projection and the time dimension\<close>

lemma those_map_Some: "those (map (\<lambda>x. Some (f x)) xs) = Some (map f xs)"
  by (induction xs) simp_all

lemma remdups_map_inj: "inj f \<Longrightarrow> remdups (map f xs) = map f (remdups xs)"
  by (induction xs) (auto simp: inj_def)

lemma inj_time_query_row: "inj time_query_row"
  by (rule injI) (simp add: time_query_row_def)

lemma inj_time_table_row: "inj time_table_row"
  by (rule injI) simp

lemma select_time_query_row:
  "select_row time_table_columns (time_query_row d) = Some (time_table_row d)"
  by (simp add: select_row_def time_table_columns_def time_query_row_def)

lemma time_query_dates:
  "time_query view =
     map time_query_row
       (remdups (remdups (map (\<lambda>v. datetime_from_sas (im_arrdate v))
                            (filter (\<lambda>v. im_arrdate v \<noteq> None) view)) @
                 remdups (map (\<lambda>v. datetime_from_sas (im_depdate v))
                            (filter (\<lambda>v. im_depdate v \<noteq> None) view))))"
proof -
  let ?A = "map (\<lambda>v. datetime_from_sas (im_arrdate v)) (filter (\<lambda>v. im_arrdate v \<noteq> None) view)"
  let ?B = "map (\<lambda>v. datetime_from_sas (im_depdate v)) (filter (\<lambda>v. im_depdate v \<noteq> None) view)"
  have a: "map (\<lambda>v. time_query_row (datetime_from_sas (im_arrdate v)))
             (filter (\<lambda>v. im_arrdate v \<noteq> None) view) = map time_query_row ?A"
    by (simp add: o_def)
  have b: "map (\<lambda>v. time_query_row (datetime_from_sas (im_depdate v)))
             (filter (\<lambda>v. im_depdate v \<noteq> None) view) = map time_query_row ?B"
    by (simp add: o_def)
  have "time_query view =
      remdups (remdups (map time_query_row ?A) @ remdups (map time_query_row ?B))"
    unfolding time_query_def a b ..
  also have "\<dots> = remdups (map time_query_row (remdups ?A) @ map time_query_row (remdups ?B))"
    by (simp only: remdups_map_inj [OF inj_time_query_row])
  also have "\<dots> = remdups (map time_query_row (remdups ?A @ remdups ?B))"
    by (simp only: map_append)
  also have "\<dots> = map time_query_row (remdups (remdups ?A @ remdups ?B))"
    by (rule remdups_map_inj [OF inj_time_query_row])
  finally show ?thesis .
qed

lemma df_select_time_query:
  "df_select time_table_columns (map time_query_row ds) = Inr (map time_table_row ds)"
  by (simp add: df_select_def o_def select_time_query_row those_map_Some)

lemma time_table_rows:
  "\<exists>ds. distinct ds
     \<and> set ds = {datetime_from_sas (im_arrdate v) | v. v \<in> set view \<and> im_arrdate v \<noteq> None}
              \<union> {datetime_from_sas (im_depdate v) | v. v \<in> set view \<and> im_depdate v \<noteq> None}
     \<and> time_query view = map time_query_row ds
     \<and> time_table view = Inr (map time_table_row ds)"
proof -
  let ?ds = "remdups (remdups (map (\<lambda>v. datetime_from_sas (im_arrdate v))
                            (filter (\<lambda>v. im_arrdate v \<noteq> None) view)) @
                 remdups (map (\<lambda>v. datetime_from_sas (im_depdate v))
                            (filter (\<lambda>v. im_depdate v \<noteq> None) view)))"
  have 1: "distinct ?ds" by simp
  have 2: "set ?ds = {datetime_from_sas (im_arrdate v) | v. v \<in> set view \<and> im_arrdate v \<noteq> None}
              \<union> {datetime_from_sas (im_depdate v) | v. v \<in> set view \<and> im_depdate v \<noteq> None}"
    by auto
  have 3: "time_query view = map time_query_row ?ds" by (rule time_query_dates)
  have 4: "time_table view = Inr (map time_table_row ?ds)"
    unfolding time_table_def 3 by (rule df_select_time_query)
  show ?thesis
  proof (intro exI conjI)
    show "distinct ?ds" by (rule 1)
    show "set ?ds = {datetime_from_sas (im_arrdate v) | v. v \<in> set view \<and> im_arrdate v \<noteq> None}
              \<union> {datetime_from_sas (im_depdate v) | v. v \<in> set view \<and> im_depdate v \<noteq> None}"
      by (rule 2)
    show "time_query view = map time_query_row ?ds" by (rule 3)
    show "time_table view = Inr (map time_table_row ?ds)" by (rule 4)
  qed
qed

lemma read_immigration_data_result:
  assumes "sas_immigrations spark input_path = Some view"
  shows "\<exists>tt. time_table view = Inr tt
     \<and> read_immigration_data spark input_path output_path s =
         Inr (s\<lparr>loads := loads s @ [input_path],
                writes := writes s @
                  [Write (output_path @ ''/parquet/immigrations_table'') Append [''Year'', ''Month'']
                     (Immigrations_table (immigrations_table view)),
                   Write (output_path @ ''/parquet/time_table'') Append [''year'', ''month'']
                     (Time_table tt)]\<rparr>)"
proof -
  from time_table_rows [of view] obtain ds where "time_table view = Inr (map time_table_row ds)"
    by (elim exE conjE)
  then show ?thesis
    using assms
    by (simp add: read_immigration_data_def spark_read_load_def write_parquet_def Let_def)
qed

lemma immigration_id_of_table:
  "r \<in> set (immigrations_table view) \<Longrightarrow> immigration_id r = Some 5748881"
  by (auto simp: immigrations_table_def immigrations_table_of_def sql_holds_def sql_eq_Some_True)

lemma sql_eq_filter: "sql_holds (sql_eq a (Some k)) \<longleftrightarrow> a = Some k"
  by (auto simp: sql_holds_def sql_eq_Some_True)

lemma length_immigrations_table:
  "length (immigrations_table view) =
     length (filter (\<lambda>v. sql_int (im_cicid v) = Some 5748881) view)"
  by (simp add: immigrations_table_def sql_eq_filter)

text \<open>
  Claim C1. When the immigration file loads, \<open>read_immigration_data\<close> writes the immigration
  table and then the time table. Every row of the written immigration table has
  \<open>immigration_id = 5748881\<close>; the table has as many rows as the input has records whose
  \<^verbatim>\<open>int(cicid)\<close> is 5748881, so one row when the input has exactly one such record.
\<close>

theorem immigration_projection_single_id:
  "sas_immigrations spark input_path = Some view \<longrightarrow>
     (\<exists>s' imm tt.
        read_immigration_data spark input_path output_path s = Inr s'
        \<and> writes s' = writes s @
            [Write (output_path @ ''/parquet/immigrations_table'') Append [''Year'', ''Month'']
               (Immigrations_table imm),
             Write (output_path @ ''/parquet/time_table'') Append [''year'', ''month'']
               (Time_table tt)]
        \<and> (\<forall>r \<in> set imm. immigration_id r = Some 5748881)
        \<and> length imm = length (filter (\<lambda>v. sql_int (im_cicid v) = Some 5748881) view)
        \<and> (length (filter (\<lambda>v. sql_int (im_cicid v) = Some 5748881) view) = 1 \<longrightarrow> length imm = 1))"
proof
  assume a: "sas_immigrations spark input_path = Some view"
  from read_immigration_data_result [OF a, of output_path s] obtain tt where
    r: "read_immigration_data spark input_path output_path s =
         Inr (s\<lparr>loads := loads s @ [input_path],
                writes := writes s @
                  [Write (output_path @ ''/parquet/immigrations_table'') Append [''Year'', ''Month'']
                     (Immigrations_table (immigrations_table view)),
                   Write (output_path @ ''/parquet/time_table'') Append [''year'', ''month'']
                     (Time_table tt)]\<rparr>)"
    by (elim exE conjE)
  show "\<exists>s' imm tt.
        read_immigration_data spark input_path output_path s = Inr s'
        \<and> writes s' = writes s @
            [Write (output_path @ ''/parquet/immigrations_table'') Append [''Year'', ''Month'']
               (Immigrations_table imm),
             Write (output_path @ ''/parquet/time_table'') Append [''year'', ''month'']
               (Time_table tt)]
        \<and> (\<forall>r \<in> set imm. immigration_id r = Some 5748881)
        \<and> length imm = length (filter (\<lambda>v. sql_int (im_cicid v) = Some 5748881) view)
        \<and> (length (filter (\<lambda>v. sql_int (im_cicid v) = Some 5748881) view) = 1 \<longrightarrow> length imm = 1)"
  proof (intro exI conjI)
    show "read_immigration_data spark input_path output_path s =
         Inr (s\<lparr>loads := loads s @ [input_path],
                writes := writes s @
                  [Write (output_path @ ''/parquet/immigrations_table'') Append [''Year'', ''Month'']
                     (Immigrations_table (immigrations_table view)),
                   Write (output_path @ ''/parquet/time_table'') Append [''year'', ''month'']
                     (Time_table tt)]\<rparr>)"
      by (rule r)
    show "writes (s\<lparr>loads := loads s @ [input_path],
                writes := writes s @
                  [Write (output_path @ ''/parquet/immigrations_table'') Append [''Year'', ''Month'']
                     (Immigrations_table (immigrations_table view)),
                   Write (output_path @ ''/parquet/time_table'') Append [''year'', ''month'']
                     (Time_table tt)]\<rparr>) = writes s @
            [Write (output_path @ ''/parquet/immigrations_table'') Append [''Year'', ''Month'']
               (Immigrations_table (immigrations_table view)),
             Write (output_path @ ''/parquet/time_table'') Append [''year'', ''month'']
               (Time_table tt)]"
      by simp
    show "\<forall>r \<in> set (immigrations_table view). immigration_id r = Some 5748881"
      by (simp add: immigration_id_of_table)
    show "length (immigrations_table view) =
        length (filter (\<lambda>v. sql_int (im_cicid v) = Some 5748881) view)"
      by (rule length_immigrations_table)
    show "length (filter (\<lambda>v. sql_int (im_cicid v) = Some 5748881) view) = 1 \<longrightarrow>
        length (immigrations_table view) = 1"
      by (simp add: length_immigrations_table)
  qed
qed

theorem immigration_projection_single_id_witness:
  "sas_immigrations ex_spark ''i94.sas7bdat'' = Some ex_immigrations
   \<and> length (filter (\<lambda>v. sql_int (im_cicid v) = Some 5748881) ex_immigrations) = 1
   \<and> length ex_immigrations = 3
   \<and> (\<exists>s' imm tt.
        read_immigration_data ex_spark ''i94.sas7bdat'' ''out'' initial_state = Inr s'
        \<and> writes s' =
            [Write ''out/parquet/immigrations_table'' Append [''Year'', ''Month'']
               (Immigrations_table imm),
             Write ''out/parquet/time_table'' Append [''year'', ''month''] (Time_table tt)]
        \<and> map immigration_id imm = [Some 5748881])"
proof -
  have a: "sas_immigrations ex_spark ''i94.sas7bdat'' = Some ex_immigrations"
    by (simp add: ex_spark_def)
  have c: "length (filter (\<lambda>v. sql_int (im_cicid v) = Some 5748881) ex_immigrations) = 1"
    by (simp add: ex_immigrations_def ex_immigration_def sql_int_def trunc_def)
  have n: "length ex_immigrations = 3" by (simp add: ex_immigrations_def)
  from immigration_projection_single_id
     [of ex_spark "''i94.sas7bdat''" ex_immigrations "''out''" initial_state, THEN mp, OF a]
  obtain s' imm tt where r: "read_immigration_data ex_spark ''i94.sas7bdat'' ''out'' initial_state = Inr s'"
    and w: "writes s' = writes initial_state @
            [Write (''out'' @ ''/parquet/immigrations_table'') Append [''Year'', ''Month'']
               (Immigrations_table imm),
             Write (''out'' @ ''/parquet/time_table'') Append [''year'', ''month''] (Time_table tt)]"
    and ids: "\<forall>r \<in> set imm. immigration_id r = Some 5748881"
    and one: "length (filter (\<lambda>v. sql_int (im_cicid v) = Some 5748881) ex_immigrations) = 1
        \<longrightarrow> length imm = 1"
    by (elim exE conjE)
  from one c have "length imm = 1" by (rule mp)
  then obtain x where x: "imm = [x]" by (cases imm) auto
  with ids have m: "map immigration_id imm = [Some 5748881]" by simp
  from w have w': "writes s' =
            [Write ''out/parquet/immigrations_table'' Append [''Year'', ''Month'']
               (Immigrations_table imm),
             Write ''out/parquet/time_table'' Append [''year'', ''month''] (Time_table tt)]"
    by (simp add: initial_state_def)
  have e: "\<exists>s' imm tt.
        read_immigration_data ex_spark ''i94.sas7bdat'' ''out'' initial_state = Inr s'
        \<and> writes s' =
            [Write ''out/parquet/immigrations_table'' Append [''Year'', ''Month'']
               (Immigrations_table imm),
             Write ''out/parquet/time_table'' Append [''year'', ''month''] (Time_table tt)]
        \<and> map immigration_id imm = [Some 5748881]"
  proof (intro exI conjI)
    show "read_immigration_data ex_spark ''i94.sas7bdat'' ''out'' initial_state = Inr s'" by (rule r)
    show "writes s' =
            [Write ''out/parquet/immigrations_table'' Append [''Year'', ''Month'']
               (Immigrations_table imm),
             Write ''out/parquet/time_table'' Append [''year'', ''month''] (Time_table tt)]"
      by (rule w')
    show "map immigration_id imm = [Some 5748881]" by (rule m)
  qed
  from a c n e show ?thesis by (intro conjI)
qed

text \<open>
  Claim C9. The time table is computed without error. Its rows are the rows derived from the
  arrival dates together with the rows derived from the departure dates, over the records whose
  source date is not NULL; no row occurs twice; every row has exactly the columns \<open>sas_date\<close>,
  \<open>year\<close>, \<open>month\<close>, \<open>weekofyear\<close>, \<open>quarter\<close>, \<open>dayofweek\<close>, while the query before the final
  projection also computes \<open>day\<close>.
\<close>

theorem time_dimension_union:
  "\<exists>tt. time_table view = Inr tt
     \<and> set tt = time_table_row `
         ({datetime_from_sas (im_arrdate v) | v. v \<in> set view \<and> im_arrdate v \<noteq> None}
          \<union> {datetime_from_sas (im_depdate v) | v. v \<in> set view \<and> im_depdate v \<noteq> None})
     \<and> distinct tt
     \<and> (\<forall>r \<in> set tt.
          map fst r = [''sas_date'', ''year'', ''month'', ''weekofyear'', ''quarter'', ''dayofweek''])
     \<and> (\<forall>r \<in> set (time_query view).
          map fst r =
            [''sas_date'', ''year'', ''month'', ''day'', ''weekofyear'', ''quarter'', ''dayofweek''])"
proof -
  from time_table_rows [of view] obtain ds where ds: "distinct ds"
    "set ds = {datetime_from_sas (im_arrdate v) | v. v \<in> set view \<and> im_arrdate v \<noteq> None}
              \<union> {datetime_from_sas (im_depdate v) | v. v \<in> set view \<and> im_depdate v \<noteq> None}"
    "time_query view = map time_query_row ds"
    "time_table view = Inr (map time_table_row ds)"
    by (elim exE conjE)
  let ?tt = "map time_table_row ds"
  have 1: "set ?tt = time_table_row `
         ({datetime_from_sas (im_arrdate v) | v. v \<in> set view \<and> im_arrdate v \<noteq> None}
          \<union> {datetime_from_sas (im_depdate v) | v. v \<in> set view \<and> im_depdate v \<noteq> None})"
    by (simp only: set_map ds(2))
  have 2: "distinct ?tt"
    by (simp add: distinct_map ds(1) inj_on_subset [OF inj_time_table_row])
  have 3: "\<forall>r \<in> set ?tt.
          map fst r = [''sas_date'', ''year'', ''month'', ''weekofyear'', ''quarter'', ''dayofweek'']"
    by auto
  have 4: "\<forall>r \<in> set (time_query view).
          map fst r =
            [''sas_date'', ''year'', ''month'', ''day'', ''weekofyear'', ''quarter'', ''dayofweek'']"
    unfolding ds(3) by (auto simp: time_query_row_def)
  show ?thesis
  proof (intro exI conjI)
    show "time_table view = Inr ?tt" by (rule ds(4))
    show "set ?tt = time_table_row `
         ({datetime_from_sas (im_arrdate v) | v. v \<in> set view \<and> im_arrdate v \<noteq> None}
          \<union> {datetime_from_sas (im_depdate v) | v. v \<in> set view \<and> im_depdate v \<noteq> None})"
      by (rule 1)
    show "distinct ?tt" by (rule 2)
    show "\<forall>r \<in> set ?tt.
          map fst r = [''sas_date'', ''year'', ''month'', ''weekofyear'', ''quarter'', ''dayofweek'']"
      by (rule 3)
    show "\<forall>r \<in> set (time_query view).
          map fst r =
            [''sas_date'', ''year'', ''month'', ''day'', ''weekofyear'', ''quarter'', ''dayofweek'']"
      by (rule 4)
  qed
qed

theorem time_dimension_union_witness:
  "\<exists>tt. time_table ex_immigrations = Inr tt \<and> distinct tt \<and> length tt = 4
     \<and> time_table_row (Some (Date 736090)) \<in> set tt"
proof -
  have eval: "time_table ex_immigrations =
      Inr (map time_table_row [Some (Date 736086), Some (Date 736084), Some (Date 736090), Some (Date 736085)])"
    unfolding time_table_def time_query_dates df_select_time_query
    by (simp add: ex_immigrations_def ex_immigration_def datetime_from_sas_def py_of_double_def
        convert_datetime_def convert_datetime_try_def trunc_def timedelta_def datetime_add_def
        MAXORDINAL_def ymd2ord_1960 Let_def)
  from time_dimension_union [of ex_immigrations]
  obtain tt where tt: "time_table ex_immigrations = Inr tt" "distinct tt"
    by (elim exE conjE)
  from tt(1) eval
  have l: "tt = map time_table_row [Some (Date 736086), Some (Date 736084), Some (Date 736090), Some (Date 736085)]"
    by simp
  have 3: "length tt = 4" unfolding l by simp
  have 4: "time_table_row (Some (Date 736090)) \<in> set tt" unfolding l by simp
  show ?thesis
  proof (intro exI conjI)
    show "time_table ex_immigrations = Inr tt" by (rule tt(1))
    show "distinct tt" by (rule tt(2))
    show "length tt = 4" by (rule 3)
    show "time_table_row (Some (Date 736090)) \<in> set tt" by (rule 4)
  qed
qed

text \<open>
  Claim C10. The time table is computed from every record of the loaded immigration file, not
  from the immigration projection: a record whose \<^verbatim>\<open>int(cicid)\<close> is not 5748881 has no row
  in the written immigration table, and still its arrival date and its departure date, when
  not NULL, each have their row in the written time table.
\<close>

theorem time_dimension_from_raw_view:
  "sas_immigrations spark input_path = Some view \<and> v \<in> set view
     \<and> sql_int (im_cicid v) \<noteq> Some 5748881 \<longrightarrow>
     (\<exists>s' imm tt.
        read_immigration_data spark input_path output_path s = Inr s'
        \<and> writes s' = writes s @
            [Write (output_path @ ''/parquet/immigrations_table'') Append [''Year'', ''Month'']
               (Immigrations_table imm),
             Write (output_path @ ''/parquet/time_table'') Append [''year'', ''month'']
               (Time_table tt)]
        \<and> time_table view = Inr tt
        \<and> immigrations_table_of v \<notin> set imm
        \<and> (im_arrdate v \<noteq> None \<longrightarrow> time_table_row (datetime_from_sas (im_arrdate v)) \<in> set tt)
        \<and> (im_depdate v \<noteq> None \<longrightarrow> time_table_row (datetime_from_sas (im_depdate v)) \<in> set tt))"
proof
  assume h: "sas_immigrations spark input_path = Some view \<and> v \<in> set view
     \<and> sql_int (im_cicid v) \<noteq> Some 5748881"
  then have a: "sas_immigrations spark input_path = Some view" and v: "v \<in> set view"
    and id: "sql_int (im_cicid v) \<noteq> Some 5748881"
    by simp_all
  from read_immigration_data_result [OF a, of output_path s] obtain tt where
    t: "time_table view = Inr tt" and
    r: "read_immigration_data spark input_path output_path s =
         Inr (s\<lparr>loads := loads s @ [input_path],
                writes := writes s @
                  [Write (output_path @ ''/parquet/immigrations_table'') Append [''Year'', ''Month'']
                     (Immigrations_table (immigrations_table view)),
                   Write (output_path @ ''/parquet/time_table'') Append [''year'', ''month'']
                     (Time_table tt)]\<rparr>)"
    by (elim exE conjE)
  from time_table_rows [of view] obtain ds where ds:
    "set ds = {datetime_from_sas (im_arrdate v) | v. v \<in> set view \<and> im_arrdate v \<noteq> None}
              \<union> {datetime_from_sas (im_depdate v) | v. v \<in> set view \<and> im_depdate v \<noteq> None}"
    "time_table view = Inr (map time_table_row ds)"
    by (elim exE conjE)
  from t ds(2) have tt: "tt = map time_table_row ds" by simp
  have arr: "im_arrdate v \<noteq> None \<longrightarrow> time_table_row (datetime_from_sas (im_arrdate v)) \<in> set tt"
  proof
    assume "im_arrdate v \<noteq> None"
    with v have "datetime_from_sas (im_arrdate v) \<in> set ds" unfolding ds(1) by blast
    then show "time_table_row (datetime_from_sas (im_arrdate v)) \<in> set tt"
      unfolding tt set_map by (rule imageI)
  qed
  have dep: "im_depdate v \<noteq> None \<longrightarrow> time_table_row (datetime_from_sas (im_depdate v)) \<in> set tt"
  proof
    assume "im_depdate v \<noteq> None"
    with v have "datetime_from_sas (im_depdate v) \<in> set ds" unfolding ds(1) by blast
    then show "time_table_row (datetime_from_sas (im_depdate v)) \<in> set tt"
      unfolding tt set_map by (rule imageI)
  qed
  have out: "immigrations_table_of v \<notin> set (immigrations_table view)"
  proof
    assume "immigrations_table_of v \<in> set (immigrations_table view)"
    then have "immigration_id (immigrations_table_of v) = Some 5748881"
      by (rule immigration_id_of_table)
    with id show False by (simp add: immigrations_table_of_def)
  qed
  show "\<exists>s' imm tt.
        read_immigration_data spark input_path output_path s = Inr s'
        \<and> writes s' = writes s @
            [Write (output_path @ ''/parquet/immigrations_table'') Append [''Year'', ''Month'']
               (Immigrations_table imm),
             Write (output_path @ ''/parquet/time_table'') Append [''year'', ''month'']
               (Time_table tt)]
        \<and> time_table view = Inr tt
        \<and> immigrations_table_of v \<notin> set imm
        \<and> (im_arrdate v \<noteq> None \<longrightarrow> time_table_row (datetime_from_sas (im_arrdate v)) \<in> set tt)
        \<and> (im_depdate v \<noteq> None \<longrightarrow> time_table_row (datetime_from_sas (im_depdate v)) \<in> set tt)"
  proof (intro exI conjI)
    show "read_immigration_data spark input_path output_path s =
         Inr (s\<lparr>loads := loads s @ [input_path],
                writes := writes s @
                  [Write (output_path @ ''/parquet/immigrations_table'') Append [''Year'', ''Month'']
                     (Immigrations_table (immigrations_table view)),
                   Write (output_path @ ''/parquet/time_table'') Append [''year'', ''month'']
                     (Time_table tt)]\<rparr>)"
      by (rule r)
    show "writes (s\<lparr>loads := loads s @ [input_path],
                writes := writes s @
                  [Write (output_path @ ''/parquet/immigrations_table'') Append [''Year'', ''Month'']
                     (Immigrations_table (immigrations_table view)),
                   Write (output_path @ ''/parquet/time_table'') Append [''year'', ''month'']
                     (Time_table tt)]\<rparr>) = writes s @
            [Write (output_path @ ''/parquet/immigrations_table'') Append [''Year'', ''Month'']
               (Immigrations_table (immigrations_table view)),
             Write (output_path @ ''/parquet/time_table'') Append [''year'', ''month'']
               (Time_table tt)]"
      by simp
    show "time_table view = Inr tt" by (rule t)
    show "immigrations_table_of v \<notin> set (immigrations_table view)" by (rule out)
    show "im_arrdate v \<noteq> None \<longrightarrow> time_table_row (datetime_from_sas (im_arrdate v)) \<in> set tt"
      by (rule arr)
    show "im_depdate v \<noteq> None \<longrightarrow> time_table_row (datetime_from_sas (im_depdate v)) \<in> set tt"
      by (rule dep)
  qed
qed

theorem time_dimension_from_raw_view_witness:
  "sas_immigrations ex_spark ''i94.sas7bdat'' = Some ex_immigrations
   \<and> ex_immigration 5748882 (Some 20576) None \<in> set ex_immigrations
   \<and> sql_int (im_cicid (ex_immigration 5748882 (Some 20576) None)) = Some 5748882
   \<and> datetime_from_sas (Some 20576) = Some (Date 736086)
   \<and> (\<exists>s' imm tt.
        read_immigration_data ex_spark ''i94.sas7bdat'' ''out'' initial_state = Inr s'
        \<and> writes s' =
            [Write ''out/parquet/immigrations_table'' Append [''Year'', ''Month'']
               (Immigrations_table imm),
             Write ''out/parquet/time_table'' Append [''year'', ''month''] (Time_table tt)]
        \<and> immigrations_table_of (ex_immigration 5748882 (Some 20576) None) \<notin> set imm
        \<and> time_table_row (Some (Date 736086)) \<in> set tt)"
proof -
  let ?v = "ex_immigration 5748882 (Some 20576) None"
  have a: "sas_immigrations ex_spark ''i94.sas7bdat'' = Some ex_immigrations"
    by (simp add: ex_spark_def)
  have v: "?v \<in> set ex_immigrations" by (simp add: ex_immigrations_def)
  have i: "sql_int (im_cicid ?v) = Some 5748882"
    by (simp add: ex_immigration_def sql_int_def trunc_def)
  then have i': "sql_int (im_cicid ?v) \<noteq> Some 5748881" by simp
  have d: "datetime_from_sas (Some 20576) = Some (Date 736086)"
    by (simp add: datetime_from_sas_def py_of_double_def convert_datetime_def
        convert_datetime_try_def trunc_def timedelta_def datetime_add_def MAXORDINAL_def
        ymd2ord_1960 Let_def)
  have arr: "im_arrdate ?v = Some 20576" by (simp add: ex_immigration_def)
  from time_dimension_from_raw_view
     [of ex_spark "''i94.sas7bdat''" ex_immigrations ?v "''out''" initial_state, THEN mp,
      OF conjI [OF a conjI [OF v i']]]
  obtain s' imm tt where r: "read_immigration_data ex_spark ''i94.sas7bdat'' ''out'' initial_state = Inr s'"
    and w: "writes s' = writes initial_state @
            [Write (''out'' @ ''/parquet/immigrations_table'') Append [''Year'', ''Month'']
               (Immigrations_table imm),
             Write (''out'' @ ''/parquet/time_table'') Append [''year'', ''month''] (Time_table tt)]"
    and out: "immigrations_table_of ?v \<notin> set imm"
    and t: "im_arrdate ?v \<noteq> None \<longrightarrow> time_table_row (datetime_from_sas (im_arrdate ?v)) \<in> set tt"
    by (elim exE conjE)
  from t have t': "time_table_row (Some (Date 736086)) \<in> set tt"
    unfolding arr d by simp
  from w have w': "writes s' =
            [Write ''out/parquet/immigrations_table'' Append [''Year'', ''Month'']
               (Immigrations_table imm),
             Write ''out/parquet/time_table'' Append [''year'', ''month''] (Time_table tt)]"
    by (simp add: initial_state_def)
  have e: "\<exists>s' imm tt.
        read_immigration_data ex_spark ''i94.sas7bdat'' ''out'' initial_state = Inr s'
        \<and> writes s' =
            [Write ''out/parquet/immigrations_table'' Append [''Year'', ''Month'']
               (Immigrations_table imm),
             Write ''out/parquet/time_table'' Append [''year'', ''month''] (Time_table tt)]
        \<and> immigrations_table_of ?v \<notin> set imm
        \<and> time_table_row (Some (Date 736086)) \<in> set tt"
  proof (intro exI conjI)
    show "read_immigration_data ex_spark ''i94.sas7bdat'' ''out'' initial_state = Inr s'" by (rule r)
    show "writes s' =
            [Write ''out/parquet/immigrations_table'' Append [''Year'', ''Month'']
               (Immigrations_table imm),
             Write ''out/parquet/time_table'' Append [''year'', ''month''] (Time_table tt)]"
      by (rule w')
    show "immigrations_table_of ?v \<notin> set imm" by (rule out)
    show "time_table_row (Some (Date 736086)) \<in> set tt" by (rule t')
  qed
  from a v i d e show ?thesis by (intro conjI)
qed


section \<open>Paths passed to the loader\<close>

lemma read_country_data_loads:
  "read_country_data spark a b out s = Inr s' \<Longrightarrow>
     loads s' = loads s @ [a, ''GlobalLandTemperaturesByCountry.csv''] \<and> ports_view s' = ports_view s"
  by (auto simp: read_country_data_def spark_read_load_def write_parquet_def split: option.splits)

lemma read_port_data_loads:
  "read_port_data spark a s = Inr (df, s') \<Longrightarrow>
     loads s' = loads s @ [a] \<and> ports_view s' = Some df"
  by (auto simp: read_port_data_def spark_read_load_def split: option.splits)

lemma read_demographics_data_loads:
  "read_demographics_data spark df a out s = Inr s' \<Longrightarrow>
     loads s' = loads s @ [''us-cities-demographics.csv''] \<and> ports_view s' = ports_view s"
  by (auto simp: read_demographics_data_def spark_read_load_def write_parquet_def
      lookup_ports_view_def split: option.splits)

lemma read_airport_data_loads:
  "read_airport_data spark df a out s = Inr s' \<Longrightarrow>
     loads s' = loads s @ [a] \<and> ports_view s' = ports_view s"
  by (auto simp: read_airport_data_def spark_read_load_def write_parquet_def
      lookup_ports_view_def split: option.splits)

lemma read_immigration_data_loads:
  "read_immigration_data spark a out s = Inr s' \<Longrightarrow>
     loads s' = loads s @ [a] \<and> ports_view s' = ports_view s"
  by (auto simp: read_immigration_data_def spark_read_load_def write_parquet_def Let_def
      split: option.splits sum.splits)

lemma read_city_temperatures_loads:
  "read_city_temperatures spark df a out s = Inr s' \<Longrightarrow>
     loads s' = loads s @ [''../../data2/GlobalLandTemperaturesByCity.csv'']
     \<and> ports_view s' = ports_view s"
  by (auto simp: read_city_temperatures_def spark_read_load_def write_parquet_def
      lookup_ports_view_def split: option.splits)

lemma main_loads:
  assumes "main spark cfg = Inr s"
  shows "loads s =
     [COUNTRY_INPUT_PATH cfg, ''GlobalLandTemperaturesByCountry.csv'', PORTS_INPUT_PATH cfg,
      ''us-cities-demographics.csv'', AIRPORTS_INPUT_PATH cfg, I94_INPUT_PATH cfg,
      ''../../data2/GlobalLandTemperaturesByCity.csv'']"
proof -
  from assms obtain s1 df s2 s3 s4 s5 where
    1: "read_country_data spark (COUNTRY_INPUT_PATH cfg) (COUNTRY_TEMPERATURE_INPUT_PATH cfg)
          (OUTPUT_PATH cfg) initial_state = Inr s1" and
    2: "read_port_data spark (PORTS_INPUT_PATH cfg) s1 = Inr (df, s2)" and
    3: "read_demographics_data spark df (DEMO_INPUT_PATH cfg) (OUTPUT_PATH cfg) s2 = Inr s3" and
    4: "read_airport_data spark df (AIRPORTS_INPUT_PATH cfg) (OUTPUT_PATH cfg) s3 = Inr s4" and
    5: "read_immigration_data spark (I94_INPUT_PATH cfg) (OUTPUT_PATH cfg) s4 = Inr s5" and
    6: "read_city_temperatures spark df (CITY_TEMPERATURE_INPUT_PATH cfg) (OUTPUT_PATH cfg) s5 = Inr s"
    unfolding main_def by (auto split: sum.splits prod.splits)
  from read_country_data_loads [OF 1] read_port_data_loads [OF 2]
    read_demographics_data_loads [OF 3] read_airport_data_loads [OF 4]
    read_immigration_data_loads [OF 5] read_city_temperatures_loads [OF 6]
  show ?thesis by (simp add: initial_state_def)
qed

lemma main_ex_spark_runs: "\<exists>s. main ex_spark cfg = Inr s"
proof -
  from time_table_rows [of ex_immigrations] obtain ds where
    "time_table ex_immigrations = Inr (map time_table_row ds)"
    by (elim exE conjE)
  then show ?thesis
    by (simp add: main_def read_country_data_def read_port_data_def read_demographics_data_def
        read_airport_data_def read_immigration_data_def read_city_temperatures_def
        spark_read_load_def lookup_ports_view_def write_parquet_def ex_spark_def Let_def)
qed

text \<open>
  Claim C3 does not hold of the code. A run of \<open>main\<close> loads the country, port, airport and
  immigration files from their configured paths, but the country temperatures, the demographics
  and the city temperatures from fixed file names, whatever \<open>COUNTRY_TEMPERATURE_INPUT_PATH\<close>,
  \<open>DEMO_INPUT_PATH\<close> and \<open>CITY_TEMPERATURE_INPUT_PATH\<close> are: these three functions only print
  their path parameter.
\<close>

theorem configured_paths_not_loaded:
  "(case main ex_spark ex_config of Inl e \<Rightarrow> [] | Inr s \<Rightarrow> loads s) =
     [''s3://dend/i94_countries.csv'', ''GlobalLandTemperaturesByCountry.csv'',
      ''s3://dend/i94_ports.csv'', ''us-cities-demographics.csv'',
      ''s3://dend/airport-codes_csv.csv'', ''s3://dend/i94_apr16_sub.sas7bdat'',
      ''../../data2/GlobalLandTemperaturesByCity.csv'']
   \<and> COUNTRY_TEMPERATURE_INPUT_PATH ex_config = ''s3://dend/GlobalLandTemperaturesByCountry.csv''
   \<and> DEMO_INPUT_PATH ex_config = ''s3://dend/us-cities-demographics.csv''
   \<and> CITY_TEMPERATURE_INPUT_PATH ex_config = ''s3://dend/GlobalLandTemperaturesByCity.csv''"
proof -
  from main_ex_spark_runs [of ex_config] obtain s where s: "main ex_spark ex_config = Inr s" ..
  have c: "(case main ex_spark ex_config of Inl e \<Rightarrow> [] | Inr s \<Rightarrow> loads s) = loads s"
    by (simp add: s)
  have l: "loads s =
     [''s3://dend/i94_countries.csv'', ''GlobalLandTemperaturesByCountry.csv'',
      ''s3://dend/i94_ports.csv'', ''us-cities-demographics.csv'',
      ''s3://dend/airport-codes_csv.csv'', ''s3://dend/i94_apr16_sub.sas7bdat'',
      ''../../data2/GlobalLandTemperaturesByCity.csv'']"
    by (simp add: main_loads [OF s] ex_config_def)
  show ?thesis
    unfolding c l by (simp add: ex_config_def)
qed


end
